theory Spec2Isabelle
  imports Main "HOL-Library.Word" "HOL-Library.FSet" "HOL-Library.AList"
begin

section \<open>Machine integers\<close>

text \<open>
  \<open>int64_t\<close> values are 64-bit words; the source compares them as signed numbers, so
  every comparison below is \<open>word_sless\<close> / \<open>word_sle\<close>.
\<close>

type_synonym int64 = "64 word"

section \<open>Metric vectors (openr/common/Util.h, namespace MetricVectorUtils)\<close>

datatype CompareResult = WINNER | TIE_WINNER | TIE | TIE_LOOSER | LOOSER | ERROR

datatype CompareType = WIN_IF_PRESENT | WIN_IF_NOT_PRESENT | IGNORE_IF_NOT_PRESENT

record MetricEntity =
  me_type :: int64
  me_priority :: int64
  me_op :: CompareType
  me_isBestPathTieBreaker :: bool
  me_metric :: "int64 list"

record MetricVector =
  mv_version :: int64
  mv_metrics :: "MetricEntity list"

text \<open>\<open>operator!\<close> on \<open>CompareResult\<close>.\<close>

fun negate :: "CompareResult \<Rightarrow> CompareResult" where
  "negate WINNER = LOOSER"
| "negate TIE_WINNER = TIE_LOOSER"
| "negate TIE = TIE"
| "negate TIE_LOOSER = TIE_WINNER"
| "negate LOOSER = WINNER"
| "negate ERROR = ERROR"

definition isDecisive :: "CompareResult \<Rightarrow> bool" where
  "isDecisive result \<longleftrightarrow> WINNER = result \<or> LOOSER = result \<or> ERROR = result"

text \<open>
  \<open>isSorted\<close>: the loop over \<open>mv.metrics\<close> with \<open>priorPriority\<close> starting at
  \<open>numeric_limits<int64_t>::max()\<close>.
\<close>

fun isSorted_from :: "int64 \<Rightarrow> MetricEntity list \<Rightarrow> bool" where
  "isSorted_from priorPriority [] = True"
| "isSorted_from priorPriority (ent # ents) =
     (if priorPriority <s me_priority ent then False
      else isSorted_from (me_priority ent) ents)"

definition isSorted :: "MetricVector \<Rightarrow> bool" where
  "isSorted mv = isSorted_from (2 ^ 63 - 1) (mv_metrics mv)"

text \<open>
  \<open>sortMetricVector\<close> sorts the vector in place (through a \<open>const_cast\<close>) unless it is
  sorted already. \<open>std::sort\<close> is not stable: the order it leaves entities of equal
  priority in is fixed by the library, not by the program, so the sorting routine is the
  parameter \<open>std_sort\<close>. \<open>insort_desc\<close> and \<open>sort_desc\<close> give one such routine.
\<close>

definition sortMetricVector ::
  "(MetricEntity list \<Rightarrow> MetricEntity list) \<Rightarrow> MetricVector \<Rightarrow> MetricVector" where
  "sortMetricVector std_sort mv =
     (if isSorted mv then mv else mv\<lparr>mv_metrics := std_sort (mv_metrics mv)\<rparr>)"

fun insort_desc :: "MetricEntity \<Rightarrow> MetricEntity list \<Rightarrow> MetricEntity list" where
  "insort_desc e [] = [e]"
| "insort_desc e (x # xs) =
     (if me_priority x <s me_priority e then e # x # xs else x # insort_desc e xs)"

fun sort_desc :: "MetricEntity list \<Rightarrow> MetricEntity list" where
  "sort_desc [] = []"
| "sort_desc (x # xs) = insort_desc x (sort_desc xs)"

fun compareMetrics_loop :: "int64 list \<Rightarrow> int64 list \<Rightarrow> bool \<Rightarrow> CompareResult" where
  "compareMetrics_loop (lv # l) (rv # r) tieBreaker =
     (if rv <s lv then (if tieBreaker then TIE_WINNER else WINNER)
      else if lv <s rv then (if tieBreaker then TIE_LOOSER else LOOSER)
      else compareMetrics_loop l r tieBreaker)"
| "compareMetrics_loop l r tieBreaker = TIE"

definition compareMetrics :: "int64 list \<Rightarrow> int64 list \<Rightarrow> bool \<Rightarrow> CompareResult" where
  "compareMetrics l r tieBreaker =
     (if length l \<noteq> length r then ERROR else compareMetrics_loop l r tieBreaker)"

definition resultForLoner :: "MetricEntity \<Rightarrow> CompareResult" where
  "resultForLoner entity =
     (if WIN_IF_PRESENT = me_op entity then
        (if me_isBestPathTieBreaker entity then TIE_WINNER else WINNER)
      else if WIN_IF_NOT_PRESENT = me_op entity then
        (if me_isBestPathTieBreaker entity then TIE_LOOSER else LOOSER)
      else TIE)"

text \<open>\<open>maybeUpdate\<close> writes through a reference; the model returns the new target.\<close>

definition maybeUpdate :: "CompareResult \<Rightarrow> CompareResult \<Rightarrow> CompareResult" where
  "maybeUpdate target update = (if isDecisive update \<or> TIE = target then update else target)"

text \<open>
  The first \<open>while\<close> loop of \<open>compareMetricVectors\<close>: both iterators are live. It
  returns the result together with what is left of the two vectors. In the last branch
  (same priority, different type) no iterator moves; the loop still ends, because the
  result became \<open>ERROR\<close>.
\<close>

function (sequential) compare_both ::
  "CompareResult \<Rightarrow> MetricEntity list \<Rightarrow> MetricEntity list
     \<Rightarrow> CompareResult \<times> MetricEntity list \<times> MetricEntity list" where
  "compare_both result (l # ls) (r # rs) =
     (if \<not> isDecisive result then
        (if me_type l = me_type r then
           (if me_isBestPathTieBreaker l \<noteq> me_isBestPathTieBreaker r then
              compare_both (maybeUpdate result ERROR) ls rs
            else
              compare_both
                (maybeUpdate result
                   (compareMetrics (me_metric l) (me_metric r) (me_isBestPathTieBreaker l)))
                ls rs)
         else if me_priority r <s me_priority l then
           compare_both (maybeUpdate result (resultForLoner l)) ls (r # rs)
         else if me_priority l <s me_priority r then
           compare_both (maybeUpdate result (negate (resultForLoner r))) (l # ls) rs
         else
           compare_both (maybeUpdate result ERROR) (l # ls) (r # rs))
      else (result, l # ls, r # rs))"
| "compare_both result ls rs = (result, ls, rs)"
  by pat_completeness auto

definition compare_both_measure ::
  "CompareResult \<times> MetricEntity list \<times> MetricEntity list \<Rightarrow> nat" where
  "compare_both_measure = (\<lambda>(result, ls, rs).
     if isDecisive result then 0 else Suc (length ls + length rs))"

lemma compare_both_measure_decisive:
  "isDecisive res' \<Longrightarrow> \<not> isDecisive res \<Longrightarrow>
   compare_both_measure (res', ls', rs') < compare_both_measure (res, ls, rs)"
  by (simp add: compare_both_measure_def)

lemma compare_both_measure_shorter:
  "length ls' + length rs' < length ls + length rs \<Longrightarrow> \<not> isDecisive res \<Longrightarrow>
   compare_both_measure (res', ls', rs') < compare_both_measure (res, ls, rs)"
  by (simp add: compare_both_measure_def)

lemma isDecisive_maybeUpdate_ERROR: "isDecisive (maybeUpdate result ERROR)"
  by (simp add: maybeUpdate_def isDecisive_def)

termination compare_both
proof (relation "measure compare_both_measure")
  show "wf (measure compare_both_measure)" by simp
qed (simp_all add: compare_both_measure_shorter compare_both_measure_decisive
       isDecisive_maybeUpdate_ERROR)

text \<open>The second and third loops: one vector is exhausted, the other has loners left.\<close>

fun compare_left :: "CompareResult \<Rightarrow> MetricEntity list \<Rightarrow> CompareResult" where
  "compare_left result [] = result"
| "compare_left result (l # ls) =
     (if \<not> isDecisive result then compare_left (maybeUpdate result (resultForLoner l)) ls
      else result)"

fun compare_right :: "CompareResult \<Rightarrow> MetricEntity list \<Rightarrow> CompareResult" where
  "compare_right result [] = result"
| "compare_right result (r # rs) =
     (if \<not> isDecisive result then
        compare_right (maybeUpdate result (negate (resultForLoner r))) rs
      else result)"

text \<open>
  \<open>compareMetricVectors\<close> returns its result and, since it sorts its arguments in
  place, the two vectors as it leaves them. On a version mismatch it returns before
  sorting.
\<close>

definition compareMetricVectors ::
  "(MetricEntity list \<Rightarrow> MetricEntity list) \<Rightarrow> MetricVector \<Rightarrow> MetricVector
     \<Rightarrow> CompareResult \<times> MetricVector \<times> MetricVector" where
  "compareMetricVectors std_sort l r =
     (if mv_version l \<noteq> mv_version r then (ERROR, l, r)
      else
        (let l' = sortMetricVector std_sort l;
             r' = sortMetricVector std_sort r;
             (result1, ls, rs) = compare_both TIE (mv_metrics l') (mv_metrics r');
             result2 = compare_left result1 ls;
             result3 = compare_right result2 rs
         in (result3, l', r')))"

text \<open>
  Two vectors for a concrete comparison: the same two entities, the first vector not
  yet sorted, and different metrics for the entity of type 1.
\<close>

definition vector_a :: MetricVector where
  "vector_a = \<lparr>mv_version = 1, mv_metrics =
     [\<lparr>me_type = 1, me_priority = 10, me_op = WIN_IF_PRESENT,
        me_isBestPathTieBreaker = False, me_metric = [5]\<rparr>,
      \<lparr>me_type = 2, me_priority = 20, me_op = WIN_IF_NOT_PRESENT,
        me_isBestPathTieBreaker = False, me_metric = [7]\<rparr>]\<rparr>"

definition vector_b :: MetricVector where
  "vector_b = \<lparr>mv_version = 1, mv_metrics =
     [\<lparr>me_type = 2, me_priority = 20, me_op = WIN_IF_NOT_PRESENT,
        me_isBestPathTieBreaker = False, me_metric = [7]\<rparr>,
      \<lparr>me_type = 1, me_priority = 10, me_op = WIN_IF_PRESENT,
        me_isBestPathTieBreaker = False, me_metric = [3]\<rparr>]\<rparr>"

section \<open>Neighbor state machine (openr/spark/Spark.cpp)\<close>

text \<open>
  The states and events of the Spark2 neighbor state machine. \<open>stateMap_\<close> is indexed
  by \<open>static_cast<uint32_t>\<close> of the two enums; the comments of the table give the
  index of each state, and the events are in the order the table's rows use.
\<close>

datatype SparkNeighState = IDLE | WARM | NEGOTIATE | ESTABLISHED | RESTART

datatype SparkNeighEvent =
    HELLO_RCVD_INFO
  | HELLO_RCVD_NO_INFO
  | HELLO_RCVD_RESTART
  | HEARTBEAT_RCVD
  | HANDSHAKE_RCVD
  | HEARTBEAT_TIMER_EXPIRE
  | NEGOTIATE_TIMER_EXPIRE
  | GR_TIMER_EXPIRE

fun state_index :: "SparkNeighState \<Rightarrow> nat" where
  "state_index IDLE = 0"
| "state_index WARM = 1"
| "state_index NEGOTIATE = 2"
| "state_index ESTABLISHED = 3"
| "state_index RESTART = 4"

fun event_index :: "SparkNeighEvent \<Rightarrow> nat" where
  "event_index HELLO_RCVD_INFO = 0"
| "event_index HELLO_RCVD_NO_INFO = 1"
| "event_index HELLO_RCVD_RESTART = 2"
| "event_index HEARTBEAT_RCVD = 3"
| "event_index HANDSHAKE_RCVD = 4"
| "event_index HEARTBEAT_TIMER_EXPIRE = 5"
| "event_index NEGOTIATE_TIMER_EXPIRE = 6"
| "event_index GR_TIMER_EXPIRE = 7"

text \<open>\<open>Spark::stateMap_\<close>, row by row; \<open>folly::none\<close> is \<open>None\<close>.\<close>

definition stateMap :: "SparkNeighState option list list" where
  "stateMap =
    [ [Some WARM, Some WARM, None, None, None, None, None, None],
      [Some NEGOTIATE, None, None, None, None, None, None, None],
      [None, None, None, None, Some ESTABLISHED, None, Some WARM, None],
      [None, Some IDLE, Some RESTART, Some ESTABLISHED, None, Some IDLE, None, None],
      [Some ESTABLISHED, None, None, None, None, None, None, Some IDLE] ]"

text \<open>
  \<open>Spark::getNextState\<close>. A failed \<open>CHECK\<close> aborts the process: it is the \<open>Inl\<close>
  result.
\<close>

datatype check_failure = CurrentStateUnexpected | NextStateUnexpected

definition getNextState ::
  "SparkNeighState option \<Rightarrow> SparkNeighEvent \<Rightarrow> check_failure + SparkNeighState" where
  "getNextState currState event =
     (case currState of
        None \<Rightarrow> Inl CurrentStateUnexpected
      | Some s \<Rightarrow>
          (case stateMap ! state_index s ! event_index event of
             None \<Rightarrow> Inl NextStateUnexpected
           | Some nextState \<Rightarrow> Inr nextState))"

text \<open>
  An execution of the machine of one neighbor: the states it visits from \<open>s\<close> on the
  events \<open>evs\<close>, every state change going through \<open>getNextState\<close> as in
  \<open>processHelloMsg\<close>, \<open>processHandshakeMsg\<close> and \<open>processNegotiateTimeout\<close>. The
  execution ends where a \<open>CHECK\<close> fails.
\<close>

fun neighbor_trace :: "SparkNeighState \<Rightarrow> SparkNeighEvent list \<Rightarrow> SparkNeighState list" where
  "neighbor_trace s [] = [s]"
| "neighbor_trace s (e # es) =
     (case getNextState (Some s) e of
        Inl failure \<Rightarrow> [s]
      | Inr s' \<Rightarrow> s # neighbor_trace s' es)"

section \<open>Spark: neighbor discovery (openr/spark/Spark.cpp)\<close>

subsection \<open>Data\<close>

text \<open>
  Sequence numbers are \<open>uint64_t\<close> and versions \<open>uint32_t\<close> after the source's
  \<open>static_cast\<close>s: words, compared unsigned. Time stamps and durations are
  \<open>std::chrono\<close> counts, labels and interface indices are \<open>int32_t\<close>; their
  arithmetic is signed, where overflow is undefined behaviour in the source, so they are
  \<open>int\<close> here and the theorems speak of the runs that stay in range.
\<close>

type_synonym BinaryAddress = string

record SparkNeighbor =
  sn_domainName :: string
  sn_nodeName :: string
  sn_holdTime :: int
  sn_transportAddressV6 :: BinaryAddress
  sn_transportAddressV4 :: BinaryAddress
  sn_ifName :: string

record ReflectedNeighborInfo =
  ri_seqNum :: "64 word"
  ri_lastNbrMsgSentTsInUs :: int
  ri_lastMyMsgRcvdTsInUs :: int

record SparkPayload =
  pl_originator :: SparkNeighbor
  pl_version :: "32 word"
  pl_seqNum :: "64 word"
  pl_neighborInfos :: "string \<rightharpoonup> ReflectedNeighborInfo"
  pl_timestamp :: int
  pl_solicitResponse :: bool
  pl_supportFloodOptimization :: bool
  pl_restarting :: "bool option"
  pl_areas :: "string fset option"

text \<open>
  \<open>Spark::Neighbor\<close>. The hold timer is the timeout it is scheduled with, if any; the
  step detector is the list of samples given to it, newest last; \<open>nb_rttChangeCb\<close> is
  the originator that the RTT callback of the neighbor captured when it was created.
\<close>

record Neighbor =
  nb_info :: SparkNeighbor
  nb_rttChangeCb :: SparkNeighbor
  nb_holdTimer :: "int option"
  nb_label :: int
  nb_seqNum :: "64 word"
  nb_stepDetector :: "(int \<times> int) list"
  nb_isAdjacent :: bool
  nb_rtt :: int
  nb_rttLatest :: int
  nb_neighborTimestamp :: int
  nb_localTimestamp :: int
  nb_numRecvRestarting :: int

record Interface =
  if_ifIndex :: int
  if_v4Network :: "BinaryAddress \<times> nat"
  if_v6LinkLocalNetwork :: "BinaryAddress \<times> nat"

text \<open>
  The Spark2 messages, with the fields the handlers read, and the packet that carries
  the payload and at most one of them in practice.
\<close>

record SparkHelloMsg =
  hm_domainName :: string
  hm_nodeName :: string
  hm_ifName :: string
  hm_seqNum :: "64 word"
  hm_neighborInfos :: "string \<rightharpoonup> ReflectedNeighborInfo"
  hm_version :: "32 word"
  hm_solicitResponse :: bool
  hm_restarting :: bool

record SparkHandshakeMsg =
  hs_nodeName :: string
  hs_isAdjEstablished :: bool
  hs_holdTime :: int
  hs_gracefulRestartTime :: int
  hs_transportAddressV6 :: BinaryAddress
  hs_transportAddressV4 :: BinaryAddress
  hs_openrCtrlThriftPort :: int
  hs_kvStorePubPort :: int
  hs_kvStoreCmdPort :: int
  hs_area :: string

record SparkHeartbeatMsg =
  hb_nodeName :: string
  hb_seqNum :: "64 word"

record SparkHelloPacket =
  pk_payload :: SparkPayload
  pk_helloMsg :: "SparkHelloMsg option"
  pk_heartbeatMsg :: "SparkHeartbeatMsg option"
  pk_handshakeMsg :: "SparkHandshakeMsg option"

text \<open>
  \<open>Spark::Spark2Neighbor\<close>. The two negotiate timers are the timeouts they are
  scheduled with, if they exist.
\<close>

record Spark2Neighbor =
  s2_domainName :: string
  s2_nodeName :: string
  s2_remoteIfName :: string
  s2_label :: int
  s2_seqNum :: "64 word"
  s2_state :: SparkNeighState
  s2_negotiateTimer :: "int option"
  s2_negotiateHoldTimer :: "int option"
  s2_kvStorePubPort :: int
  s2_kvStoreCmdPort :: int
  s2_openrCtrlThriftPort :: int
  s2_transportAddressV4 :: BinaryAddress
  s2_transportAddressV6 :: BinaryAddress
  s2_heartbeatHoldTime :: int
  s2_gracefulRestartHoldTime :: int
  s2_rtt :: int

text \<open>
  What \<open>IoProvider::recvMessage\<close> hands to \<open>parsePacket\<close> for one packet, together
  with two verdicts of libraries that are not embedded here: whether the rate limiter
  (\<open>shouldProcessHelloPacket\<close>, a folly time series read against the clock) lets the
  packet through, and what the thrift deserialiser makes of the buffer (\<open>None\<close>: it
  throws).
\<close>

record RecvMessage =
  rm_bytesRead :: int
  rm_ifIndex :: int
  rm_clientAddr :: string
  rm_hopLimit :: int
  rm_recvTime :: int
  rm_rateOk :: bool
  rm_parsed :: "SparkHelloPacket option"

datatype SparkNeighborEventType =
    NEIGHBOR_UP | NEIGHBOR_DOWN | NEIGHBOR_RESTARTED | NEIGHBOR_RTT_CHANGE | NEIGHBOR_RESTARTING

record SparkNeighborEvent =
  ev_eventType :: SparkNeighborEventType
  ev_ifName :: string
  ev_neighbor :: SparkNeighbor
  ev_rttUs :: int
  ev_label :: int
  ev_supportFloodOptimization :: bool
  ev_area :: "string option"

datatype PacketValidationResult = SUCCESS | FAILURE | NEIGHBOR_RESTART

text \<open>
  What ends a function early: the \<open>std::out_of_range\<close> of \<open>at\<close>, the
  \<open>std::runtime_error\<close> of the label allocator, or a failed \<open>CHECK\<close>, which aborts
  the process.
\<close>

datatype spark_exception = OutOfRange | RanOutOfLabelSpace | CheckFailed

text \<open>
  The members of \<open>Spark\<close> that the functions below read or write. Some things are
  declared in headers and libraries that are not embedded here (Constants.h, Spark.h,
  StepDetector.h, folly) and are parameters: \<open>Constants::kSrLocalRange\<close>
  (\<open>kSrLocalRange\<close>); folly's address parsing and subnet test used by
  \<open>validateV4AddressSubnet\<close> (\<open>toIPAddress_ok\<close>: the address parses;
  \<open>inSubnet\<close>: the local address lies in the neighbor's network of the local prefix
  length); the step detector's verdict on the samples it has (\<open>stepDetect\<close>: the new
  RTT it calls back with, if it does); \<open>Spark2Neighbor::toThrift\<close> (\<open>toThrift\<close>); and
  the size of a serialised handshake packet and the number of bytes the socket sends of
  it (\<open>handshakeSize\<close>, \<open>sendMessage\<close>). \<open>tData\<close> holds, for each stat key,
  the sum of the values added to it; \<open>reported\<close> is what was sent on the report
  socket, oldest first; \<open>scheduledHellos\<close> are the interfaces for which
  \<open>sendHelloPacket\<close> was scheduled with timeout 0; \<open>sentHandshakes\<close> are the
  handshake messages handed to the socket, with their interface; \<open>interfaceDb\<close> is
  an association list with distinct keys, in the order \<open>findInterfaceFromIfindex\<close>
  walks it.
\<close>

record Spark =
  myDomainName :: string
  myNodeName :: string
  lowestSupportedVersion :: "32 word"
  enableV4 :: bool
  enableSubnetValidation :: bool
  enableSpark2 :: bool
  areas :: "string fset option"
  myHoldTime :: int
  myHandshakeTime :: int
  myNegotiateHoldTime :: int
  myHeartbeatHoldTime :: int
  kOpenrCtrlThriftPort :: int
  kKvStorePubPort :: int
  kKvStoreCmdPort :: int
  kSrLocalRange :: "int \<times> int"
  toIPAddress_ok :: "BinaryAddress \<Rightarrow> bool"
  inSubnet :: "BinaryAddress \<Rightarrow> BinaryAddress \<Rightarrow> nat \<Rightarrow> bool"
  stepDetect :: "(int \<times> int) list \<Rightarrow> int option"
  toThrift :: "Spark2Neighbor \<Rightarrow> SparkNeighbor"
  handshakeSize :: "SparkHandshakeMsg \<Rightarrow> int"
  sendMessage :: "string \<Rightarrow> SparkHandshakeMsg \<Rightarrow> int"
  mySeqNum :: "64 word"
  interfaceDb :: "(string \<times> Interface) list"
  neighbors :: "string \<rightharpoonup> (string \<rightharpoonup> Neighbor)"
  spark2Neighbors :: "string \<rightharpoonup> (string \<rightharpoonup> Spark2Neighbor)"
  allocatedLabels :: "int fset"
  tData :: "string \<Rightarrow> int"
  reported :: "SparkNeighborEvent list"
  scheduledHellos :: "string list"
  sentHandshakes :: "(string \<times> SparkHandshakeMsg) list"

definition addStatValue :: "string \<Rightarrow> int \<Rightarrow> Spark \<Rightarrow> Spark" where
  "addStatValue key v st = st\<lparr>tData := (tData st)(key := tData st key + v)\<rparr>"

subsection \<open>Packet validation\<close>

definition sanityCheckHelloPkt ::
  "string \<Rightarrow> string \<Rightarrow> string \<Rightarrow> 32 word \<Rightarrow> Spark \<Rightarrow> PacketValidationResult \<times> Spark" where
  "sanityCheckHelloPkt domainName neighborName remoteIfName remoteVersion st =
     (if neighborName = myNodeName st then
        (FAILURE, addStatValue ''spark.invalid_keepalive.looped_packet'' 1 st)
      else if domainName \<noteq> myDomainName st then
        (FAILURE, addStatValue ''spark.invalid_keepalive.different_domain'' 1 st)
      else if remoteVersion < lowestSupportedVersion st then
        (FAILURE, addStatValue ''spark.invalid_keepalive.invalid_version'' 1 st)
      else (SUCCESS, st))"

definition validateV4AddressSubnet ::
  "string \<Rightarrow> BinaryAddress \<Rightarrow> Spark \<Rightarrow> (spark_exception + PacketValidationResult) \<times> Spark" where
  "validateV4AddressSubnet ifName neighV4Addr st =
     (case map_of (interfaceDb st) ifName of
        None \<Rightarrow> (Inl OutOfRange, st)
      | Some iface \<Rightarrow>
          (let myV4Addr = fst (if_v4Network iface);
               myV4PrefixLen = snd (if_v4Network iface)
           in if \<not> toIPAddress_ok st neighV4Addr then
                (Inr FAILURE, addStatValue ''spark.invalid_keepalive.missing_v4_addr'' 1 st)
              else if \<not> inSubnet st myV4Addr neighV4Addr myV4PrefixLen then
                (Inr FAILURE, addStatValue ''spark.invalid_keepalive.different_subnet'' 1 st)
              else (Inr SUCCESS, st)))"

subsection \<open>Label allocation\<close>

text \<open>
  The \<open>while\<close> loop of \<open>getNewLabelForIface\<close>: \<open>insert(label).second\<close> is false
  while the label is allocated, and the label goes down by one. The loop ends because
  the set is finite.
\<close>

function scan_down :: "int fset \<Rightarrow> int \<Rightarrow> int" where
  "scan_down allocated label =
     (if label |\<in>| allocated then scan_down allocated (label - 1) else label)"
  by pat_completeness auto

definition scan_down_measure :: "int fset \<times> int \<Rightarrow> nat" where
  "scan_down_measure = (\<lambda>(allocated, label). fcard (ffilter (\<lambda>x. x \<le> label) allocated))"

lemma scan_down_measure_less:
  assumes "label |\<in>| allocated"
  shows "scan_down_measure (allocated, label - 1) < scan_down_measure (allocated, label)"
proof -
  have "ffilter (\<lambda>x. x \<le> label - 1) allocated |\<subset>| ffilter (\<lambda>x. x \<le> label) allocated"
    using assms by (auto simp: less_fset_def) 
  then show ?thesis
    by (simp add: scan_down_measure_def pfsubset_fcard_mono)
qed

termination scan_down
proof (relation "measure scan_down_measure")
  show "wf (measure scan_down_measure)" by simp
qed (simp add: scan_down_measure_less)

declare scan_down.simps [simp del]

text \<open>
  \<open>getNewLabelForIface\<close>. Every \<open>insert\<close> that succeeds changes \<open>allocatedLabels_\<close>,
  also the one that ends the loop below the range, just before the exception.
\<close>

definition getNewLabelForIface :: "string \<Rightarrow> Spark \<Rightarrow> (spark_exception + int) \<times> Spark" where
  "getNewLabelForIface ifName st =
     (case map_of (interfaceDb st) ifName of
        None \<Rightarrow> (Inl OutOfRange, st)
      | Some iface \<Rightarrow>
          (let label = fst (kSrLocalRange st) + if_ifIndex iface in
           if label |\<notin>| allocatedLabels st then
             (Inr label, st\<lparr>allocatedLabels := finsert label (allocatedLabels st)\<rparr>)
           else
             (let label' = scan_down (allocatedLabels st) (snd (kSrLocalRange st));
                  st' = st\<lparr>allocatedLabels := finsert label' (allocatedLabels st)\<rparr>
              in if label' < fst (kSrLocalRange st) then (Inl RanOutOfLabelSpace, st')
                 else (Inr label', st'))))"

text \<open>The \<open>Neighbor\<close> constructor; the members it does not name start at zero.\<close>

definition new_Neighbor :: "SparkNeighbor \<Rightarrow> int \<Rightarrow> 64 word \<Rightarrow> Neighbor" where
  "new_Neighbor info label seqNum =
     \<lparr> nb_info = info, nb_rttChangeCb = info, nb_holdTimer = None, nb_label = label,
       nb_seqNum = seqNum,
       nb_stepDetector = [], nb_isAdjacent = False, nb_rtt = 0, nb_rttLatest = 0,
       nb_neighborTimestamp = 0, nb_localTimestamp = 0, nb_numRecvRestarting = 0 \<rparr>"

definition set_neighbor :: "string \<Rightarrow> string \<Rightarrow> Neighbor \<Rightarrow> Spark \<Rightarrow> Spark" where
  "set_neighbor ifName neighborName nb st =
     st\<lparr>neighbors := (neighbors st)(ifName \<mapsto>
          (case neighbors st ifName of None \<Rightarrow> Map.empty | Some m \<Rightarrow> m)(neighborName \<mapsto> nb))\<rparr>"

definition validateHelloPacket ::
  "string \<Rightarrow> SparkPayload \<Rightarrow> Spark \<Rightarrow> (spark_exception + PacketValidationResult) \<times> Spark" where
  "validateHelloPacket ifName payload st =
     (let originator = pl_originator payload;
          domainName = sn_domainName originator;
          neighborName = sn_nodeName originator;
          remoteIfName = sn_ifName originator;
          remoteVersion = pl_version payload
      in case sanityCheckHelloPkt domainName neighborName remoteIfName remoteVersion st of
           (FAILURE, st1) \<Rightarrow> (Inr FAILURE, st1)
         | (_, st1) \<Rightarrow>
        (case (if enableV4 st1 \<and> enableSubnetValidation st1
               then validateV4AddressSubnet ifName (sn_transportAddressV4 originator) st1
               else (Inr SUCCESS, st1)) of
           (Inl e, st2) \<Rightarrow> (Inl e, st2)
         | (Inr FAILURE, st2) \<Rightarrow> (Inr FAILURE, st2)
         | (Inr _, st2) \<Rightarrow>
        (case neighbors st2 ifName of
           None \<Rightarrow> (Inl OutOfRange, st2)
         | Some ifNeighbors \<Rightarrow>
        (case ifNeighbors neighborName of
           None \<Rightarrow>
             (case getNewLabelForIface ifName st2 of
                (Inl e, st3) \<Rightarrow> (Inl e, st3)
              | (Inr label, st3) \<Rightarrow>
                  (Inr SUCCESS,
                   set_neighbor ifName neighborName
                     (new_Neighbor originator label (pl_seqNum payload)) st3))
         | Some neighbor \<Rightarrow>
             (let newSeqNum = pl_seqNum payload in
              if newSeqNum \<le> nb_seqNum neighbor then
                (Inr NEIGHBOR_RESTART,
                 set_neighbor ifName neighborName
                   (neighbor\<lparr>nb_info := originator, nb_seqNum := newSeqNum\<rparr>) st2)
              else
                (let st3 = set_neighbor ifName neighborName
                             (neighbor\<lparr>nb_seqNum := newSeqNum\<rparr>) st2
                 in if enableV4 st3 \<and>
                       sn_transportAddressV4 originator
                         \<noteq> sn_transportAddressV4 (nb_info neighbor)
                    then (Inr NEIGHBOR_RESTART, st3)
                    else (Inr SUCCESS, st3)))))))"

text \<open>
  \<open>processNeighborHoldTimeout\<close>: the neighbor is reported down if it was adjacent,
  and on leaving (\<open>SCOPE_EXIT\<close>) its label is released and it is no longer tracked.
\<close>

definition createSparkNeighborEvent ::
  "SparkNeighborEventType \<Rightarrow> string \<Rightarrow> SparkNeighbor \<Rightarrow> int \<Rightarrow> int \<Rightarrow> bool
     \<Rightarrow> string option \<Rightarrow> SparkNeighborEvent" where
  "createSparkNeighborEvent eventType ifName originator rtt label supportFloodOptimization area =
     \<lparr> ev_eventType = eventType, ev_ifName = ifName, ev_neighbor = originator,
       ev_rttUs = rtt, ev_label = label,
       ev_supportFloodOptimization = supportFloodOptimization, ev_area = area \<rparr>"

definition processNeighborHoldTimeout ::
  "string \<Rightarrow> string \<Rightarrow> Spark \<Rightarrow> (spark_exception + unit) \<times> Spark" where
  "processNeighborHoldTimeout ifName neighborName st =
     (case neighbors st ifName of
        None \<Rightarrow> (Inl OutOfRange, st)
      | Some ifNeighbors \<Rightarrow>
     (case ifNeighbors neighborName of
        None \<Rightarrow> (Inl OutOfRange, st)
      | Some neighbor \<Rightarrow>
          (let st1 =
                 (if nb_isAdjacent neighbor then
                    st\<lparr>reported := reported st @
                       [createSparkNeighborEvent NEIGHBOR_DOWN ifName (nb_info neighbor)
                          (nb_rtt neighbor) (nb_label neighbor) False None]\<rparr>
                  else st)
           in (Inr (),
               st1\<lparr>allocatedLabels := allocatedLabels st1 |-| {|nb_label neighbor|},
                    neighbors := (neighbors st1)(ifName \<mapsto> ifNeighbors(neighborName := None))\<rparr>))))"

subsection \<open>A concrete node\<close>

text \<open>
  A node with two interfaces and no neighbor yet, used to run the functions above on
  concrete inputs. The local label range is 50000 to 59999.
\<close>

definition spark0 :: Spark where
  "spark0 =
     \<lparr> myDomainName = ''domain'', myNodeName = ''node-1'', lowestSupportedVersion = 20,
       enableV4 = False, enableSubnetValidation = False, enableSpark2 = False,
       areas = None, myHoldTime = 30000, myHandshakeTime = 500,
       myNegotiateHoldTime = 5000, myHeartbeatHoldTime = 5000,
       kOpenrCtrlThriftPort = 2018, kKvStorePubPort = 60001, kKvStoreCmdPort = 60002,
       kSrLocalRange = (50000, 59999),
       toIPAddress_ok = (\<lambda>a. True), inSubnet = (\<lambda>a b n. True),
       stepDetect = (\<lambda>samples. None),
       toThrift = (\<lambda>n.
         \<lparr> sn_domainName = s2_domainName n, sn_nodeName = s2_nodeName n,
           sn_holdTime = s2_gracefulRestartHoldTime n,
           sn_transportAddressV6 = s2_transportAddressV6 n,
           sn_transportAddressV4 = s2_transportAddressV4 n,
           sn_ifName = s2_remoteIfName n \<rparr>),
       handshakeSize = (\<lambda>m. 100), sendMessage = (\<lambda>ifName m. 100),
       mySeqNum = 7,
       interfaceDb = [(''eth0'', \<lparr>if_ifIndex = 3, if_v4Network = ([], 0),
                                  if_v6LinkLocalNetwork = (''fe80::1'', 64)\<rparr>),
                      (''eth1'', \<lparr>if_ifIndex = 10000, if_v4Network = ([], 0),
                                  if_v6LinkLocalNetwork = (''fe80::1'', 64)\<rparr>)],
       neighbors = [''eth0'' \<mapsto> Map.empty, ''eth1'' \<mapsto> Map.empty],
       spark2Neighbors = [''eth0'' \<mapsto> Map.empty, ''eth1'' \<mapsto> Map.empty],
       allocatedLabels = {||}, tData = (\<lambda>k. 0), reported = [], scheduledHellos = [],
       sentHandshakes = [] \<rparr>"

text \<open>
  The same node later: \<open>node-2\<close> is tracked on \<open>eth0\<close> with the label 50003, and the
  top label 59999 is taken as well.
\<close>

definition node2_neighbor :: Neighbor where
  "node2_neighbor =
     new_Neighbor
       \<lparr> sn_domainName = ''domain'', sn_nodeName = ''node-2'', sn_holdTime = 3000,
         sn_transportAddressV6 = ''fe80::2'', sn_transportAddressV4 = ''10.0.0.2'',
         sn_ifName = ''eth7'' \<rparr> 50003 10"

definition spark1 :: Spark where
  "spark1 = spark0
     \<lparr> neighbors := [''eth0'' \<mapsto> [''node-2'' \<mapsto> node2_neighbor], ''eth1'' \<mapsto> Map.empty],
       allocatedLabels := {|50003, 59999|} \<rparr>"

text \<open>A node whose local range, 100 to 101, is used up.\<close>

definition spark_full :: Spark where
  "spark_full = spark1 \<lparr> kSrLocalRange := (100, 101), allocatedLabels := {|100, 101, 103|} \<rparr>"

text \<open>
  A hello of the tracked \<open>node-2\<close> that carries another domain name and a sequence
  number below the stored one (10).
\<close>

definition hello_other_domain :: SparkPayload where
  "hello_other_domain =
     \<lparr> pl_originator =
         \<lparr> sn_domainName = ''other'', sn_nodeName = ''node-2'', sn_holdTime = 3000,
           sn_transportAddressV6 = ''fe80::2'', sn_transportAddressV4 = ''10.0.0.9'',
           sn_ifName = ''eth7'' \<rparr>,
       pl_version = 20, pl_seqNum = 5, pl_neighborInfos = Map.empty, pl_timestamp = 0,
       pl_solicitResponse = False, pl_supportFloodOptimization = False,
       pl_restarting = None, pl_areas = None \<rparr>"

text \<open>The same hello in the node's own domain, and one with the next sequence number.\<close>

definition hello_restart :: SparkPayload where
  "hello_restart =
     hello_other_domain
       \<lparr>pl_originator := (pl_originator hello_other_domain)\<lparr>sn_domainName := ''domain''\<rparr>\<rparr>"

definition hello_next :: SparkPayload where
  "hello_next = hello_restart\<lparr>pl_seqNum := 11\<rparr>"

subsection \<open>Receiving a packet\<close>

text \<open>C++ integer division truncates towards zero.\<close>

definition tdiv :: "int \<Rightarrow> int \<Rightarrow> int" where
  "tdiv a b = sgn a * sgn b * (\<bar>a\<bar> div \<bar>b\<bar>)"

definition findInterfaceFromIfindex :: "int \<Rightarrow> Spark \<Rightarrow> string option" where
  "findInterfaceFromIfindex ifIndex st =
     map_option fst (find (\<lambda>kv. if_ifIndex (snd kv) = ifIndex) (interfaceDb st))"

text \<open>
  \<open>parsePacket\<close>: \<open>None\<close> is the result \<open>false\<close>, \<open>Some\<close> carries the packet and the
  interface name it was received on (the receive time is \<open>rm_recvTime\<close> in either
  case). \<open>kSparkHopLimit\<close> is 255 and \<open>kMinIpv6Mtu\<close> 1280.
\<close>

definition kSparkHopLimit :: int where
  "kSparkHopLimit = 255"

definition kMinIpv6Mtu :: int where
  "kMinIpv6Mtu = 1280"

definition parsePacket :: "RecvMessage \<Rightarrow> Spark \<Rightarrow> (SparkHelloPacket \<times> string) option \<times> Spark" where
  "parsePacket rm st =
     (if rm_hopLimit rm < kSparkHopLimit then (None, st)
      else case findInterfaceFromIfindex (rm_ifIndex rm) st of
        None \<Rightarrow> (None, st)
      | Some ifName \<Rightarrow>
          (let st1 = addStatValue ''spark.hello_packet_recv'' 1 st;
               st2 = addStatValue ''spark.hello_packet_recv_size'' (rm_bytesRead rm) st1
           in if \<not> rm_rateOk rm then
                (None, addStatValue ''spark.hello_packet_dropped'' 1 st2)
              else
                (let st3 = addStatValue ''spark.hello_packet_processed'' 1 st2 in
                 if 0 \<le> rm_bytesRead rm then
                   (if kMinIpv6Mtu < rm_bytesRead rm then (None, st3)
                    else case rm_parsed rm of
                      None \<Rightarrow> (None, st3)
                    | Some pkt \<Rightarrow> (Some (pkt, ifName), st3))
                 else (None, st3))))"

text \<open>
  \<open>findCommonArea\<close>: \<open>Inl ()\<close> is the unexpected result, \<open>Inr\<close> the area, if any.
\<close>

definition findCommonArea ::
  "string fset option \<Rightarrow> string \<Rightarrow> Spark \<Rightarrow> (unit + string option) \<times> Spark" where
  "findCommonArea adjAreas nodeName st =
     (case (areas st, adjAreas) of
        (Some myAreas, Some theirAreas) \<Rightarrow>
          (let commonArea = ffilter (\<lambda>area. area |\<in>| theirAreas) myAreas in
           if fcard commonArea = 0 then
             (Inl (), addStatValue ''spark.no_common_area'' 1 st)
           else if 1 < fcard commonArea then
             (Inl (), addStatValue ''spark.multiple_common_area'' 1 st)
           else (Inr (Some (fthe_elem commonArea)), st))
      | _ \<Rightarrow> (Inr None, st))"

text \<open>
  The RTT measurement of \<open>processHelloPacket\<close>, from the four time stamps in
  microseconds: \<open>Some\<close> is the sample that is given to the step detector, \<open>None\<close>
  means that no sample is taken. The source rounds and raises the sample to 1000 first,
  and tests whether it is negative afterwards.
\<close>

definition rttSample :: "int \<Rightarrow> int \<Rightarrow> int \<Rightarrow> int \<Rightarrow> int option" where
  "rttSample mySentTime nbrRecvTime nbrSentTime myRecvTime =
     (if mySentTime \<noteq> 0 \<and> nbrRecvTime \<noteq> 0 then
        (let useRtt = (\<not> nbrSentTime < nbrRecvTime \<and> \<not> myRecvTime < mySentTime)
         in if useRtt then
              (let rtt = (myRecvTime - mySentTime) - (nbrSentTime - nbrRecvTime);
                   rtt' = max (tdiv rtt 1000 * 1000) 1000
               in if rtt' < 0 then None else Some rtt')
            else None)
      else None)"

definition report :: "SparkNeighborEvent \<Rightarrow> Spark \<Rightarrow> Spark" where
  "report event st = st\<lparr>reported := reported st @ [event]\<rparr>"

text \<open>
  The RTT block of \<open>processHelloPacket\<close> on the neighbor of the packet. Adding the
  sample to the step detector can make it call \<open>processNeighborRttChange\<close> back, which
  works on the same neighbor: it sets the RTT and reports the change, if the neighbor is
  adjacent. The result is the neighbor and the state with what was reported.
\<close>

definition updateRtt ::
  "string \<Rightarrow> SparkPayload \<Rightarrow> int \<Rightarrow> Neighbor \<Rightarrow> Spark \<Rightarrow> Neighbor \<times> Spark" where
  "updateRtt ifName payload myRecvTime neighbor st =
     (case pl_neighborInfos payload (myNodeName st) of
        None \<Rightarrow> (neighbor, st)
      | Some tstamps \<Rightarrow>
          (case rttSample (ri_lastNbrMsgSentTsInUs tstamps) (ri_lastMyMsgRcvdTsInUs tstamps)
                  (pl_timestamp payload) myRecvTime of
             None \<Rightarrow> (neighbor, st)
           | Some rtt \<Rightarrow>
               (let samples = nb_stepDetector neighbor @ [(tdiv myRecvTime 1000, rtt)];
                    neighbor1 = neighbor\<lparr>nb_stepDetector := samples\<rparr>;
                    (neighbor2, st1) =
                      (case stepDetect st samples of
                         None \<Rightarrow> (neighbor1, st)
                       | Some newRtt \<Rightarrow>
                           if \<not> nb_isAdjacent neighbor1 then (neighbor1, st)
                           else (neighbor1\<lparr>nb_rtt := newRtt\<rparr>,
                                 report (createSparkNeighborEvent NEIGHBOR_RTT_CHANGE ifName
                                   (nb_rttChangeCb neighbor1) newRtt (nb_label neighbor1)
                                   False None) st));
                    neighbor3 = (if nb_rtt neighbor2 = 0 then neighbor2\<lparr>nb_rtt := rtt\<rparr>
                                 else neighbor2)
                in (neighbor3\<lparr>nb_rttLatest := rtt\<rparr>, st1))))"

text \<open>
  The old Spark processing of \<open>processHelloPacket\<close> (its step 3), on a parsed packet.
\<close>

definition processPayload ::
  "SparkPayload \<Rightarrow> string \<Rightarrow> int \<Rightarrow> Spark \<Rightarrow> (spark_exception + unit) \<times> Spark" where
  "processPayload payload ifName myRecvTime st =
     (case validateHelloPacket ifName payload st of
        (Inl e, st1) \<Rightarrow> (Inl e, st1)
      | (Inr FAILURE, st1) \<Rightarrow> (Inr (), st1)
      | (Inr validationResult, st1) \<Rightarrow>
     (let originator = pl_originator payload in
      case findCommonArea (pl_areas payload) (sn_nodeName originator) st1 of
        (Inl u, st2) \<Rightarrow> (Inr (), st2)
      | (Inr adjArea, st2) \<Rightarrow>
     (case neighbors st2 ifName of
        None \<Rightarrow> (Inl OutOfRange, st2)
      | Some ifNeighbors \<Rightarrow>
     (case ifNeighbors (sn_nodeName originator) of
        None \<Rightarrow> (Inl OutOfRange, st2)
      | Some neighbor0 \<Rightarrow>
     (let neighborName = sn_nodeName originator;
          isAdjacent = nb_isAdjacent neighbor0;
          nbrSentTime = pl_timestamp payload;
          neighbor1 = neighbor0\<lparr>nb_neighborTimestamp := nbrSentTime,
                                 nb_localTimestamp := myRecvTime\<rparr>
      in if pl_restarting payload = Some True then
           (let neighbor2 = neighbor1\<lparr>nb_numRecvRestarting := nb_numRecvRestarting neighbor1 + 1\<rparr>;
                st3 = set_neighbor ifName neighborName neighbor2 st2
            in if 1 < nb_numRecvRestarting neighbor2 then (Inr (), st3)
               else (Inr (),
                     report (createSparkNeighborEvent NEIGHBOR_RESTARTING ifName originator
                       (nb_rtt neighbor2) (nb_label neighbor2) False adjArea) st3))
         else
           (let (neighbor2, st3) = updateRtt ifName payload myRecvTime neighbor1 st2;
                foundSelf = (case pl_neighborInfos payload (myNodeName st3) of
                               None \<Rightarrow> False
                             | Some info \<Rightarrow> ri_seqNum info < mySeqNum st3);
                st4 = (if \<not> foundSelf \<and> pl_solicitResponse payload
                       then st3\<lparr>scheduledHellos := scheduledHellos st3 @ [ifName]\<rparr>
                       else st3);
                supportFloodOptimization = pl_supportFloodOptimization payload
            in if isAdjacent \<and> validationResult = NEIGHBOR_RESTART then
                 (Inr (),
                  set_neighbor ifName neighborName (neighbor2\<lparr>nb_numRecvRestarting := 0\<rparr>)
                    (report (createSparkNeighborEvent NEIGHBOR_RESTARTED ifName originator
                       (nb_rtt neighbor2) (nb_label neighbor2) supportFloodOptimization adjArea)
                       st4))
               else if foundSelf \<and> isAdjacent then
                 (Inr (),
                  set_neighbor ifName neighborName
                    (neighbor2\<lparr>nb_holdTimer := Some (sn_holdTime originator)\<rparr>) st4)
               else if \<not> foundSelf \<and> \<not> isAdjacent then
                 (Inr (), set_neighbor ifName neighborName neighbor2 st4)
               else if foundSelf \<and> \<not> isAdjacent then
                 (Inr (),
                  set_neighbor ifName neighborName
                    (neighbor2\<lparr>nb_numRecvRestarting := 0, nb_isAdjacent := True,
                               nb_holdTimer := Some (sn_holdTime originator)\<rparr>)
                    (report (createSparkNeighborEvent NEIGHBOR_UP ifName originator
                       (nb_rtt neighbor2) (nb_label neighbor2) supportFloodOptimization adjArea)
                       st4))
               else
                 (Inr (),
                  set_neighbor ifName neighborName
                    (neighbor2\<lparr>nb_isAdjacent := False, nb_holdTimer := None\<rparr>)
                    (report (createSparkNeighborEvent NEIGHBOR_DOWN ifName originator
                       (nb_rtt neighbor2) (nb_label neighbor2) False None) st4))))))))"

subsection \<open>Spark2 messages\<close>

definition notifySparkNeighborEvent ::
  "SparkNeighborEventType \<Rightarrow> string \<Rightarrow> SparkNeighbor \<Rightarrow> int \<Rightarrow> int \<Rightarrow> bool \<Rightarrow> Spark \<Rightarrow> Spark" where
  "notifySparkNeighborEvent eventType ifName originator rttUs label supportFloodOptimization st =
     report (createSparkNeighborEvent eventType ifName originator rttUs label
               supportFloodOptimization None) st"

definition set_spark2Neighbor :: "string \<Rightarrow> string \<Rightarrow> Spark2Neighbor \<Rightarrow> Spark \<Rightarrow> Spark" where
  "set_spark2Neighbor ifName neighborName nb st =
     st\<lparr>spark2Neighbors := (spark2Neighbors st)(ifName \<mapsto>
          (case spark2Neighbors st ifName of None \<Rightarrow> Map.empty | Some m \<Rightarrow> m)
            (neighborName \<mapsto> nb))\<rparr>"

text \<open>
  The \<open>Spark2Neighbor\<close> constructor: the state is IDLE, the members it does not name
  start empty or at zero, and the three names must not be empty.
\<close>

definition new_Spark2Neighbor ::
  "string \<Rightarrow> string \<Rightarrow> string \<Rightarrow> int \<Rightarrow> 64 word \<Rightarrow> spark_exception + Spark2Neighbor" where
  "new_Spark2Neighbor domainName nodeName remoteIfName label seqNum =
     (if domainName = [] \<or> nodeName = [] \<or> remoteIfName = [] then Inl CheckFailed
      else Inr
        \<lparr> s2_domainName = domainName, s2_nodeName = nodeName,
          s2_remoteIfName = remoteIfName, s2_label = label, s2_seqNum = seqNum,
          s2_state = IDLE, s2_negotiateTimer = None, s2_negotiateHoldTimer = None,
          s2_kvStorePubPort = 0, s2_kvStoreCmdPort = 0, s2_openrCtrlThriftPort = 0,
          s2_transportAddressV4 = [], s2_transportAddressV6 = [],
          s2_heartbeatHoldTime = 0, s2_gracefulRestartHoldTime = 0, s2_rtt = 0 \<rparr>)"

text \<open>A state change of a Spark2 neighbor through \<open>getNextState\<close>.\<close>

definition nextState :: "Spark2Neighbor \<Rightarrow> SparkNeighEvent \<Rightarrow> spark_exception + Spark2Neighbor" where
  "nextState neighbor event =
     (case getNextState (Some (s2_state neighbor)) event of
        Inl failure \<Rightarrow> Inl CheckFailed
      | Inr s \<Rightarrow> Inr (neighbor\<lparr>s2_state := s\<rparr>))"

definition processHelloMsg ::
  "SparkHelloMsg \<Rightarrow> string \<Rightarrow> Spark \<Rightarrow> (spark_exception + unit) \<times> Spark" where
  "processHelloMsg helloMsg ifName st =
     (let neighborName = hm_nodeName helloMsg;
          domainName = hm_domainName helloMsg;
          remoteIfName = hm_ifName helloMsg;
          neighborInfos = hm_neighborInfos helloMsg;
          remoteVersion = hm_version helloMsg;
          remoteSeqNum = hm_seqNum helloMsg
      in case sanityCheckHelloPkt domainName neighborName remoteIfName remoteVersion st of
           (FAILURE, st1) \<Rightarrow> (Inr (), st1)
         | (_, st1) \<Rightarrow>
        (case spark2Neighbors st1 ifName of
           None \<Rightarrow> (Inr (), st1)
         | Some ifNeighbors \<Rightarrow>
        (case ifNeighbors neighborName of
           None \<Rightarrow>
             (case getNewLabelForIface ifName st1 of
                (Inl e, st2) \<Rightarrow> (Inl e, st2)
              | (Inr label, st2) \<Rightarrow>
                  (case new_Spark2Neighbor domainName neighborName remoteIfName label
                          remoteSeqNum of
                     Inl e \<Rightarrow> (Inl e, st2)
                   | Inr neighbor \<Rightarrow>
                       (case nextState neighbor HELLO_RCVD_NO_INFO of
                          Inl e \<Rightarrow> (Inl e, set_spark2Neighbor ifName neighborName neighbor st2)
                        | Inr neighbor' \<Rightarrow>
                            (Inr (), set_spark2Neighbor ifName neighborName neighbor' st2))))
         | Some neighbor \<Rightarrow>
             (let originator = toThrift st1 neighbor in
              if s2_state neighbor = WARM then
                (let neighbor1 = neighbor\<lparr>s2_seqNum := remoteSeqNum\<rparr>;
                     st2 = set_spark2Neighbor ifName neighborName neighbor1 st1
                 in case neighborInfos (myNodeName st1) of
                      None \<Rightarrow>
                        (Inr (),
                         if hm_solicitResponse helloMsg
                         then st2\<lparr>scheduledHellos := scheduledHellos st2 @ [ifName]\<rparr>
                         else st2)
                    | Some info \<Rightarrow>
                        if mySeqNum st1 \<le> ri_seqNum info then (Inr (), st2)
                        else
                          (let neighbor2 = neighbor1
                                 \<lparr>s2_negotiateTimer := Some (myHandshakeTime st1),
                                  s2_negotiateHoldTimer := Some (myNegotiateHoldTime st1)\<rparr>
                           in case nextState neighbor2 HELLO_RCVD_INFO of
                                Inl e \<Rightarrow>
                                  (Inl e, set_spark2Neighbor ifName neighborName neighbor2 st1)
                              | Inr neighbor3 \<Rightarrow>
                                  (Inr (), set_spark2Neighbor ifName neighborName neighbor3 st1)))
              else if s2_state neighbor = ESTABLISHED then
                (let neighbor1 = neighbor\<lparr>s2_seqNum := remoteSeqNum\<rparr>;
                     st2 = set_spark2Neighbor ifName neighborName neighbor1 st1
                 in case neighborInfos (myNodeName st1) of
                      Some info \<Rightarrow> (Inr (), st2)
                    | None \<Rightarrow>
                        (case nextState neighbor1 HELLO_RCVD_NO_INFO of
                           Inl e \<Rightarrow> (Inl e, st2)
                         | Inr neighbor2 \<Rightarrow>
                             (let st3 = notifySparkNeighborEvent NEIGHBOR_DOWN ifName originator
                                          (s2_rtt neighbor2) (s2_label neighbor2) True st2
                              in (Inr (),
                                  st3\<lparr>allocatedLabels :=
                                         allocatedLabels st3 |-| {|s2_label neighbor2|},
                                       spark2Neighbors := (spark2Neighbors st3)(ifName \<mapsto>
                                         ifNeighbors(neighborName := None))\<rparr>))))
              else if s2_state neighbor = RESTART then (Inl CheckFailed, st1)
              else (Inr (), st1)))))"

definition sendHandshakeMsg ::
  "string \<Rightarrow> bool \<Rightarrow> Spark \<Rightarrow> (spark_exception + unit) \<times> Spark" where
  "sendHandshakeMsg ifName isAdjEstablished st =
     (case map_of (interfaceDb st) ifName of
        None \<Rightarrow> (Inl OutOfRange, st)
      | Some interfaceEntry \<Rightarrow>
          (let handshakeMsg =
                 \<lparr> hs_nodeName = myNodeName st, hs_isAdjEstablished = isAdjEstablished,
                   hs_holdTime = myHeartbeatHoldTime st,
                   hs_gracefulRestartTime = myHoldTime st,
                   hs_transportAddressV6 = fst (if_v6LinkLocalNetwork interfaceEntry),
                   hs_transportAddressV4 = fst (if_v4Network interfaceEntry),
                   hs_openrCtrlThriftPort = kOpenrCtrlThriftPort st,
                   hs_kvStorePubPort = kKvStorePubPort st,
                   hs_kvStoreCmdPort = kKvStoreCmdPort st, hs_area = [] \<rparr>;
               packetSize = handshakeSize st handshakeMsg
           in if kMinIpv6Mtu < packetSize then (Inr (), st)
              else
                (let st1 = st\<lparr>sentHandshakes := sentHandshakes st @ [(ifName, handshakeMsg)]\<rparr>;
                     bytesSent = sendMessage st ifName handshakeMsg
                 in if bytesSent < 0 \<or> bytesSent \<noteq> packetSize then (Inr (), st1)
                    else (Inr (),
                          addStatValue ''spark.handshake.packets_sent'' 1
                            (addStatValue ''spark.handshake.bytes_sent'' packetSize st1)))))"

definition processHandshakeMsg ::
  "SparkHandshakeMsg \<Rightarrow> string \<Rightarrow> Spark \<Rightarrow> (spark_exception + unit) \<times> Spark" where
  "processHandshakeMsg handshakeMsg ifName st =
     (let neighborName = hs_nodeName handshakeMsg in
      case spark2Neighbors st ifName of
        None \<Rightarrow> (Inl OutOfRange, st)
      | Some ifNeighbors \<Rightarrow>
     (case ifNeighbors neighborName of
        None \<Rightarrow> (Inl CheckFailed, st)
      | Some neighbor \<Rightarrow>
     (case (if \<not> hs_isAdjEstablished handshakeMsg
            then sendHandshakeMsg ifName (s2_state neighbor = ESTABLISHED) st
            else (Inr (), st)) of
        (Inl e, st1) \<Rightarrow> (Inl e, st1)
      | (Inr u, st1) \<Rightarrow>
          if s2_state neighbor \<noteq> NEGOTIATE then (Inr (), st1)
          else
            (case (if enableV4 st1 \<and> enableSubnetValidation st1
                   then validateV4AddressSubnet ifName
                          (hs_transportAddressV4 handshakeMsg) st1
                   else (Inr SUCCESS, st1)) of
               (Inl e, st2) \<Rightarrow> (Inl e, st2)
             | (Inr FAILURE, st2) \<Rightarrow> (Inr (), st2)
             | (Inr v, st2) \<Rightarrow>
                 (let neighbor1 = neighbor
                        \<lparr>s2_kvStorePubPort := hs_kvStorePubPort handshakeMsg,
                         s2_kvStoreCmdPort := hs_kvStoreCmdPort handshakeMsg,
                         s2_openrCtrlThriftPort := hs_openrCtrlThriftPort handshakeMsg,
                         s2_transportAddressV4 := hs_transportAddressV4 handshakeMsg,
                         s2_transportAddressV6 := hs_transportAddressV6 handshakeMsg,
                         s2_heartbeatHoldTime :=
                           max (hs_holdTime handshakeMsg) (myHeartbeatHoldTime st2),
                         s2_gracefulRestartHoldTime :=
                           max (hs_gracefulRestartTime handshakeMsg) (myHoldTime st2)\<rparr>
                  in case nextState neighbor1 HANDSHAKE_RCVD of
                       Inl e \<Rightarrow> (Inl e, set_spark2Neighbor ifName neighborName neighbor1 st2)
                     | Inr neighbor2 \<Rightarrow>
                         (let neighbor3 = neighbor2\<lparr>s2_negotiateTimer := None,
                                                     s2_negotiateHoldTimer := None\<rparr>;
                              st3 = set_spark2Neighbor ifName neighborName neighbor3 st2
                          in (Inr (),
                              notifySparkNeighborEvent NEIGHBOR_UP ifName
                                (toThrift st3 neighbor3) (s2_rtt neighbor3) (s2_label neighbor3)
                                True st3)))))))"

definition processHeartbeatMsg :: "Spark \<Rightarrow> (spark_exception + unit) \<times> Spark" where
  "processHeartbeatMsg st = (Inl CheckFailed, st)"

definition processNegotiateTimeout ::
  "string \<Rightarrow> string \<Rightarrow> Spark \<Rightarrow> (spark_exception + unit) \<times> Spark" where
  "processNegotiateTimeout ifName neighborName st =
     (case spark2Neighbors st ifName of
        None \<Rightarrow> (Inl OutOfRange, st)
      | Some ifNeighbors \<Rightarrow>
     (case ifNeighbors neighborName of
        None \<Rightarrow> (Inl OutOfRange, st)
      | Some neighbor \<Rightarrow>
          if s2_state neighbor \<noteq> NEGOTIATE then (Inl CheckFailed, st)
          else
            (case nextState neighbor NEGOTIATE_TIMER_EXPIRE of
               Inl e \<Rightarrow> (Inl e, st)
             | Inr neighbor1 \<Rightarrow>
                 (Inr (),
                  set_spark2Neighbor ifName neighborName
                    (neighbor1\<lparr>s2_negotiateTimer := None\<rparr>) st))))"

subsection \<open>processHelloPacket\<close>

text \<open>
  \<open>processHelloPacket\<close> on what the socket delivers. An exception that leaves it is
  caught and logged by the caller; the state stays as the exception left it.
\<close>

definition processHelloPacket :: "RecvMessage \<Rightarrow> Spark \<Rightarrow> (spark_exception + unit) \<times> Spark" where
  "processHelloPacket rm st =
     (case parsePacket rm st of
        (None, st1) \<Rightarrow> (Inr (), st1)
      | (Some (helloPacket, ifName), st1) \<Rightarrow>
          if enableSpark2 st1 \<and> pk_helloMsg helloPacket \<noteq> None then
            processHelloMsg (the (pk_helloMsg helloPacket)) ifName st1
          else if enableSpark2 st1 \<and> pk_heartbeatMsg helloPacket \<noteq> None then
            processHeartbeatMsg st1
          else if enableSpark2 st1 \<and> pk_handshakeMsg helloPacket \<noteq> None then
            processHandshakeMsg (the (pk_handshakeMsg helloPacket)) ifName st1
          else processPayload (pk_payload helloPacket) ifName (rm_recvTime rm) st1)"

subsection \<open>Concrete packets\<close>

text \<open>
  A packet that carries \<open>hello_other_domain\<close> and arrives on \<open>eth0\<close> (index 3) with
  the full hop limit, and the same packet after one hop.
\<close>

definition packet_other_domain :: RecvMessage where
  "packet_other_domain =
     \<lparr> rm_bytesRead = 200, rm_ifIndex = 3, rm_clientAddr = ''fe80::2'', rm_hopLimit = 255,
       rm_recvTime = 5000000, rm_rateOk = True,
       rm_parsed = Some \<lparr> pk_payload = hello_other_domain, pk_helloMsg = None,
                           pk_heartbeatMsg = None, pk_handshakeMsg = None \<rparr> \<rparr>"

definition packet_one_hop :: RecvMessage where
  "packet_one_hop = packet_other_domain\<lparr>rm_hopLimit := 254\<rparr>"

text \<open>A Spark2 hello that carries the node's own name.\<close>

definition helloMsg_looped :: SparkHelloMsg where
  "helloMsg_looped =
     \<lparr> hm_domainName = ''domain'', hm_nodeName = ''node-1'', hm_ifName = ''eth0'',
       hm_seqNum = 3, hm_neighborInfos = Map.empty, hm_version = 20,
       hm_solicitResponse = False, hm_restarting = False \<rparr>"

section \<open>ConfigStore (spec, section 4.7)\<close>

text \<open>
  Modelled from the spec: the config store (\<open>PersistentStore\<close>); of the repository only
  the test \<open>OpenrCtrlFixture.PersistentStoreApis\<close> that drives it is among the sources.
  The store is the map from keys to bytes of section 4.7; \<open>get_config_key\<close> returns the
  bytes or the typed NotFound error (\<open>thrift::OpenrError\<close> in the test).
\<close>

type_synonym ConfigStore = "string \<rightharpoonup> string"

datatype OpenrError = NotFound

definition set_config_key :: "string \<Rightarrow> string \<Rightarrow> ConfigStore \<Rightarrow> ConfigStore" where
  "set_config_key key v store = store(key \<mapsto> v)"

definition get_config_key :: "string \<Rightarrow> ConfigStore \<Rightarrow> OpenrError + string" where
  "get_config_key key store = (case store key of None \<Rightarrow> Inl NotFound | Some v \<Rightarrow> Inr v)"

definition erase_config_key :: "string \<Rightarrow> ConfigStore \<Rightarrow> ConfigStore" where
  "erase_config_key key store = store(key := None)"

section \<open>PrefixManager (spec, section 4.6)\<close>

text \<open>
  Modelled from the spec: the operations of \<open>PrefixManager\<close>; the sources hold its
  header and the test \<open>OpenrCtrlFixture.PrefixManagerApis\<close>, not its implementation.
  Following section 4.6 the state is a map from prefix type to the prefixes of that
  source, \<open>{PrefixType \<rightarrow> {prefix \<rightarrow> Entry}}\<close>, here association lists with distinct
  keys. \<open>sync_by_type\<close> replaces all prefixes of the type with the given ones (the
  header's comment), and a withdrawal of a prefix that is not advertised fails with
  NotFound and changes nothing (section 7: no partial success of a batch).
\<close>

datatype PrefixType = LOOPBACK | CLIENT | BGP | OtherPrefixType nat

datatype PrefixForwardingType = IP | SR_MPLS

datatype PrefixForwardingAlgorithm = SP_ECMP | KSP2_ED_ECMP

record PrefixEntry =
  pe_prefix :: string
  pe_type :: PrefixType
  pe_data :: string
  pe_forwardingType :: PrefixForwardingType
  pe_forwardingAlgorithm :: PrefixForwardingAlgorithm
  pe_ephemeral :: "bool option"
  pe_mv :: "MetricVector option"

type_synonym PrefixDb = "(PrefixType \<times> (string \<times> PrefixEntry) list) list"

definition createPrefixEntry :: "string \<Rightarrow> PrefixType \<Rightarrow> PrefixEntry" where
  "createPrefixEntry p t =
     \<lparr> pe_prefix = p, pe_type = t, pe_data = [], pe_forwardingType = IP,
       pe_forwardingAlgorithm = SP_ECMP, pe_ephemeral = None, pe_mv = None \<rparr>"

definition prefixes_of_type :: "PrefixType \<Rightarrow> PrefixDb \<Rightarrow> (string \<times> PrefixEntry) list" where
  "prefixes_of_type t db = (case map_of db t of None \<Rightarrow> [] | Some m \<Rightarrow> m)"

definition advertise_prefix :: "PrefixEntry \<Rightarrow> PrefixDb \<Rightarrow> PrefixDb" where
  "advertise_prefix e db =
     AList.update (pe_type e)
       (AList.update (pe_prefix e) e (prefixes_of_type (pe_type e) db)) db"

definition advertise_prefixes :: "PrefixEntry list \<Rightarrow> PrefixDb \<Rightarrow> PrefixDb" where
  "advertise_prefixes es db = fold advertise_prefix es db"

definition is_advertised :: "PrefixDb \<Rightarrow> PrefixEntry \<Rightarrow> bool" where
  "is_advertised db e = (map_of (prefixes_of_type (pe_type e) db) (pe_prefix e) \<noteq> None)"

definition withdraw_prefix :: "PrefixEntry \<Rightarrow> PrefixDb \<Rightarrow> PrefixDb" where
  "withdraw_prefix e db =
     AList.update (pe_type e)
       (AList.delete (pe_prefix e) (prefixes_of_type (pe_type e) db)) db"

definition withdraw_prefixes :: "PrefixEntry list \<Rightarrow> PrefixDb \<Rightarrow> OpenrError + PrefixDb" where
  "withdraw_prefixes es db =
     (if list_all (is_advertised db) es then Inr (fold withdraw_prefix es db) else Inl NotFound)"

definition withdraw_prefixes_by_type :: "PrefixType \<Rightarrow> PrefixDb \<Rightarrow> PrefixDb" where
  "withdraw_prefixes_by_type t db = AList.delete t db"

definition sync_prefixes_by_type :: "PrefixType \<Rightarrow> PrefixEntry list \<Rightarrow> PrefixDb \<Rightarrow> PrefixDb" where
  "sync_prefixes_by_type t es db =
     AList.update t (fold (\<lambda>e m. AList.update (pe_prefix e) e m) es []) db"

definition get_prefixes :: "PrefixDb \<Rightarrow> PrefixEntry set" where
  "get_prefixes db = set (concat (map (\<lambda>(t, m). map snd m) db))"

definition get_prefixes_by_type :: "PrefixType \<Rightarrow> PrefixDb \<Rightarrow> PrefixEntry set" where
  "get_prefixes_by_type t db = set (map snd (prefixes_of_type t db))"

text \<open>
  Scenario S1 up to the queries: the four calls in order on an empty PrefixManager. The
  withdrawal can fail, so the sequence is a value of the sum type.
\<close>

definition prefix_lifecycle :: "OpenrError + PrefixDb" where
  "prefix_lifecycle =
     (case withdraw_prefixes [createPrefixEntry ''21.0.0.0/8'' BGP]
             (advertise_prefixes
                [createPrefixEntry ''10.0.0.0/8'' LOOPBACK,
                 createPrefixEntry ''11.0.0.0/8'' LOOPBACK,
                 createPrefixEntry ''20.0.0.0/8'' BGP,
                 createPrefixEntry ''21.0.0.0/8'' BGP] []) of
        Inl err \<Rightarrow> Inl err
      | Inr db \<Rightarrow>
          Inr (sync_prefixes_by_type BGP [createPrefixEntry ''23.0.0.0/8'' BGP]
                 (withdraw_prefixes_by_type LOOPBACK db)))"

section \<open>KvStore records and the filtered dump (spec, sections 3 and 4.1)\<close>

text \<open>
  \<open>thrift::Value\<close>, the record of the store: the fields the client code reads and
  writes, as section 3 lists them. The value is absent in a TTL update.
\<close>

record Value =
  v_version :: int
  v_originatorId :: string
  v_value :: "string option"
  v_ttl :: int
  v_ttlVersion :: int
  v_hash :: "int option"

text \<open>
  \<open>createThriftValue\<close> as the tests call it, with three arguments: the ttl is the
  constant for an infinite ttl (declared in Constants.h: a parameter), the ttl version 0
  and no hash.
\<close>

definition createThriftValue :: "int \<Rightarrow> int \<Rightarrow> string \<Rightarrow> string \<Rightarrow> Value" where
  "createThriftValue kTtlInfinity version originatorId data =
     \<lparr> v_version = version, v_originatorId = originatorId, v_value = Some data,
       v_ttl = kTtlInfinity, v_ttlVersion = 0, v_hash = None \<rparr>"

text \<open>
  Modelled from the spec: the filtered dumps of the KvStore
  (\<open>get_kv_store_key_vals_filtered\<close>, \<open>get_kv_store_hash_filtered\<close>); the store itself
  is not among the sources, only \<open>KvStoreWrapper\<close>, the client and the test
  \<open>OpenrCtrlFixture.KvStoreApis\<close>. A record passes the filter when its key starts with
  the prefix or its originator is one of the originator ids (section 4.1, Filters); with
  no prefix and no originator id every record passes. The hash dump returns the same
  records with the value omitted. The store is an association list with distinct keys.
\<close>

record KeyDumpParams =
  kd_prefix :: "string option"
  kd_originatorIds :: "string list"

definition keyMatch :: "KeyDumpParams \<Rightarrow> string \<Rightarrow> Value \<Rightarrow> bool" where
  "keyMatch params key v =
     ((kd_prefix params = None \<and> kd_originatorIds params = [])
      \<or> (case kd_prefix params of None \<Rightarrow> False | Some p \<Rightarrow> take (length p) key = p)
      \<or> v_originatorId v \<in> set (kd_originatorIds params))"

definition get_kv_store_key_vals_filtered ::
  "KeyDumpParams \<Rightarrow> (string \<times> Value) list \<Rightarrow> (string \<times> Value) list" where
  "get_kv_store_key_vals_filtered params store =
     filter (\<lambda>(key, v). keyMatch params key v) store"

definition get_kv_store_hash_filtered ::
  "KeyDumpParams \<Rightarrow> (string \<times> Value) list \<Rightarrow> (string \<times> Value) list" where
  "get_kv_store_hash_filtered params store =
     map (\<lambda>(key, v). (key, v\<lparr>v_value := None\<rparr>))
       (filter (\<lambda>(key, v). keyMatch params key v) store)"

text \<open>The nine records of scenario S2, as the test seeds them.\<close>

definition seeded_store :: "int \<Rightarrow> (string \<times> Value) list" where
  "seeded_store kTtlInfinity =
     [(''key1'', createThriftValue kTtlInfinity 1 ''node1'' ''value1''),
      (''key11'', createThriftValue kTtlInfinity 1 ''node1'' ''value11''),
      (''key111'', createThriftValue kTtlInfinity 1 ''node1'' ''value111''),
      (''key2'', createThriftValue kTtlInfinity 1 ''node1'' ''value2''),
      (''key22'', createThriftValue kTtlInfinity 1 ''node1'' ''value22''),
      (''key222'', createThriftValue kTtlInfinity 1 ''node1'' ''value222''),
      (''key3'', createThriftValue kTtlInfinity 1 ''node3'' ''value3''),
      (''key33'', createThriftValue kTtlInfinity 1 ''node33'' ''value33''),
      (''key333'', createThriftValue kTtlInfinity 1 ''node33'' ''value333'')]"

definition key3_params :: KeyDumpParams where
  "key3_params = \<lparr> kd_prefix = Some ''key3'', kd_originatorIds = [''node3''] \<rparr>"

section \<open>KvStore client (KvStoreClientInternal)\<close>

subsection \<open>State and surroundings\<close>

text \<open>
  What the client calls and is implemented elsewhere, as parameters: the
  KvStore's answer to \<open>getKey\<close> for one key of an area (\<open>None\<close>: the request throws
  or the key is not there), whether a set request succeeds, the
  \<open>ExponentialBackoff\<close> class (\<open>'b\<close> is its state; the clock it reads is part of
  the functions), and four constants of \<open>Constants\<close>.
\<close>

record 'b KvStoreEnv =
  env_getKey :: "string \<Rightarrow> string \<Rightarrow> Value option"
  env_setKvStoreKeyVals :: "string \<Rightarrow> (string \<times> Value) list \<Rightarrow> bool"
  env_newBackoff :: "int \<Rightarrow> int \<Rightarrow> 'b"
  env_canTryNow :: "'b \<Rightarrow> bool"
  env_reportError :: "'b \<Rightarrow> 'b"
  env_getTimeRemainingUntilRetry :: "'b \<Rightarrow> int"
  env_kInitialBackoff :: int
  env_kMaxBackoff :: int
  env_kMaxTtlUpdateInterval :: int
  env_kTtlInfinity :: int

text \<open>
  The members of \<open>KvStoreClientInternal\<close>. The maps that the client walks are
  association lists with distinct keys, in the order it walks them; the others are
  maps. \<open>persistedKeyVals_\<close>, \<open>keyTtlBackoffs_\<close> and \<open>keysToAdvertise_\<close> are keyed by
  area and read with \<open>operator[]\<close>, which puts an empty entry where the area has
  none; every function of the client skips an area whose entry is empty, so the model
  reads a missing area as an empty one and does not tell the two apart. The two timers
  are the timeouts they are scheduled with; \<open>kc_callbackLog\<close> are the calls of key
  callbacks and \<open>kc_setRequests\<close> the set requests handed to the KvStore, oldest first.
\<close>

record 'b KvStoreClientInternal =
  kc_nodeId :: string
  kc_persistedKeyVals :: "string \<Rightarrow> (string \<rightharpoonup> Value)"
  kc_keyTtlBackoffs :: "(string \<times> (string \<times> Value \<times> 'b) list) list"
  kc_keysToAdvertise :: "(string \<times> string list) list"
  kc_backoffs :: "string \<rightharpoonup> 'b"
  kc_keyCallbacks :: "string set"
  kc_callbackLog :: "(string \<times> Value) list"
  kc_advertiseKeyValsTimer :: "int option"
  kc_ttlTimer :: "int option"
  kc_setRequests :: "(string \<times> (string \<times> Value) list) list"

datatype client_exception = MapAtOutOfRange | BadOptionalAccess

definition area_entries :: "(string \<times> 'a list) list \<Rightarrow> string \<Rightarrow> 'a list" where
  "area_entries m area = (case map_of m area of None \<Rightarrow> [] | Some entries \<Rightarrow> entries)"

text \<open>A \<open>uint32_t\<close> parameter that is given an \<open>int64_t\<close>.\<close>

definition to_uint32 :: "int \<Rightarrow> int" where
  "to_uint32 x = x mod 2 ^ 32"

subsection \<open>Advertising\<close>

text \<open>
  \<open>setKeysHelper\<close>: nothing is sent for an empty batch; the result is whether the
  request went through.
\<close>

definition setKeysHelper ::
  "'b KvStoreEnv \<Rightarrow> (string \<times> Value) list \<Rightarrow> string \<Rightarrow> 'b KvStoreClientInternal
     \<Rightarrow> bool \<times> 'b KvStoreClientInternal" where
  "setKeysHelper env keyVals area st =
     (if keyVals = [] then (True, st)
      else (env_setKvStoreKeyVals env area keyVals,
            st\<lparr>kc_setRequests := kc_setRequests st @ [(area, keyVals)]\<rparr>))"

text \<open>
  The inner loop of \<open>advertisePendingKeys\<close> over the pending keys of one area. It
  carries the timeout, the batch and the keys of the batch; \<open>at\<close> throws for a key
  that is not persisted or has no backoff.
\<close>

fun pending_keys_loop ::
  "'b KvStoreEnv \<Rightarrow> string \<Rightarrow> string list \<Rightarrow> int \<Rightarrow> (string \<times> Value) list \<Rightarrow> string list
     \<Rightarrow> 'b KvStoreClientInternal
     \<Rightarrow> (client_exception + int \<times> (string \<times> Value) list \<times> string list)
         \<times> 'b KvStoreClientInternal" where
  "pending_keys_loop env area [] timeout keyVals keys st = (Inr (timeout, keyVals, keys), st)"
| "pending_keys_loop env area (key # rest) timeout keyVals keys st =
     (case kc_persistedKeyVals st area key of
        None \<Rightarrow> (Inl MapAtOutOfRange, st)
      | Some thriftValue \<Rightarrow>
     (case kc_backoffs st key of
        None \<Rightarrow> (Inl MapAtOutOfRange, st)
      | Some backoff \<Rightarrow>
          if \<not> env_canTryNow env backoff then
            pending_keys_loop env area rest
              (min timeout (env_getTimeRemainingUntilRetry env backoff)) keyVals keys st
          else
            (let backoff' = env_reportError env backoff;
                 st' = st\<lparr>kc_backoffs := (kc_backoffs st)(key \<mapsto> backoff')\<rparr>
             in pending_keys_loop env area rest
                  (min timeout (env_getTimeRemainingUntilRetry env backoff'))
                  (AList.update key thriftValue keyVals) (keys @ [key]) st')))"

text \<open>The outer loop over the areas, given the entries that are still to be visited.\<close>

fun pending_areas_loop ::
  "'b KvStoreEnv \<Rightarrow> (string \<times> string list) list \<Rightarrow> int \<Rightarrow> 'b KvStoreClientInternal
     \<Rightarrow> (client_exception + int) \<times> 'b KvStoreClientInternal" where
  "pending_areas_loop env [] timeout st = (Inr timeout, st)"
| "pending_areas_loop env ((area, keysToAdvertise) # rest) timeout st =
     (if keysToAdvertise = [] then pending_areas_loop env rest timeout st
      else case pending_keys_loop env area keysToAdvertise timeout [] [] st of
        (Inl e, st1) \<Rightarrow> (Inl e, st1)
      | (Inr (timeout1, keyVals, keys), st1) \<Rightarrow>
          (case setKeysHelper env keyVals area st1 of
             (True, st2) \<Rightarrow>
               pending_areas_loop env rest timeout1
                 (st2\<lparr>kc_keysToAdvertise :=
                       AList.update area
                         (filter (\<lambda>k. k \<notin> set keys) (area_entries (kc_keysToAdvertise st2) area))
                         (kc_keysToAdvertise st2)\<rparr>)
           | (False, st2) \<Rightarrow> pending_areas_loop env rest timeout1 st2))"

definition advertisePendingKeys ::
  "'b KvStoreEnv \<Rightarrow> 'b KvStoreClientInternal
     \<Rightarrow> (client_exception + unit) \<times> 'b KvStoreClientInternal" where
  "advertisePendingKeys env st =
     (case pending_areas_loop env (kc_keysToAdvertise st) (env_kMaxBackoff env) st of
        (Inl e, st1) \<Rightarrow> (Inl e, st1)
      | (Inr timeout, st1) \<Rightarrow> (Inr (), st1\<lparr>kc_advertiseKeyValsTimer := Some timeout\<rparr>))"

text \<open>
  \<open>advertiseTtlUpdates\<close>: the loop over the ttl backoffs of one area returns the
  entries as it leaves them, the timeout and the batch.
\<close>

fun ttl_keys_loop ::
  "'b KvStoreEnv \<Rightarrow> (string \<rightharpoonup> Value) \<Rightarrow> (string \<times> Value \<times> 'b) list \<Rightarrow> int
     \<Rightarrow> (string \<times> Value) list
     \<Rightarrow> (string \<times> Value \<times> 'b) list \<times> int \<times> (string \<times> Value) list" where
  "ttl_keys_loop env persistedKeyVals [] timeout keyVals = ([], timeout, keyVals)"
| "ttl_keys_loop env persistedKeyVals ((key, thriftValue, backoff) # rest) timeout keyVals =
     (if \<not> env_canTryNow env backoff then
        (let (rest', timeout', keyVals') =
               ttl_keys_loop env persistedKeyVals rest
                 (min timeout (env_getTimeRemainingUntilRetry env backoff)) keyVals
         in ((key, thriftValue, backoff) # rest', timeout', keyVals'))
      else
        (let backoff' = env_reportError env backoff;
             thriftValue1 =
               (case persistedKeyVals key of
                  None \<Rightarrow> thriftValue
                | Some persisted \<Rightarrow>
                    if v_version thriftValue < v_version persisted
                    then thriftValue\<lparr>v_version := v_version persisted,
                                      v_ttlVersion := v_ttlVersion persisted\<rparr>
                    else thriftValue);
             thriftValue2 = thriftValue1\<lparr>v_ttlVersion := v_ttlVersion thriftValue1 + 1\<rparr>;
             (rest', timeout', keyVals') =
               ttl_keys_loop env persistedKeyVals rest
                 (min timeout (env_getTimeRemainingUntilRetry env backoff'))
                 (AList.update key thriftValue2 keyVals)
         in ((key, thriftValue2, backoff') # rest', timeout', keyVals')))"

fun ttl_areas_loop ::
  "'b KvStoreEnv \<Rightarrow> (string \<times> (string \<times> Value \<times> 'b) list) list \<Rightarrow> int
     \<Rightarrow> 'b KvStoreClientInternal \<Rightarrow> int \<times> 'b KvStoreClientInternal" where
  "ttl_areas_loop env [] timeout st = (timeout, st)"
| "ttl_areas_loop env ((area, keyTtlBackoffs) # rest) timeout st =
     (let (keyTtlBackoffs', timeout1, keyVals) =
            ttl_keys_loop env (kc_persistedKeyVals st area) keyTtlBackoffs timeout [];
          st1 = st\<lparr>kc_keyTtlBackoffs :=
                      AList.update area keyTtlBackoffs' (kc_keyTtlBackoffs st)\<rparr>;
          st2 = (if keyVals \<noteq> [] then snd (setKeysHelper env keyVals area st1) else st1)
      in ttl_areas_loop env rest timeout1 st2)"

definition advertiseTtlUpdates ::
  "'b KvStoreEnv \<Rightarrow> 'b KvStoreClientInternal \<Rightarrow> 'b KvStoreClientInternal" where
  "advertiseTtlUpdates env st =
     (case ttl_areas_loop env (kc_keyTtlBackoffs st) (env_kMaxTtlUpdateInterval env) st of
        (timeout, st1) \<Rightarrow> st1\<lparr>kc_ttlTimer := Some timeout\<rparr>)"

definition scheduleTtlUpdates ::
  "'b KvStoreEnv \<Rightarrow> string \<Rightarrow> int \<Rightarrow> int \<Rightarrow> int \<Rightarrow> bool \<Rightarrow> string
     \<Rightarrow> 'b KvStoreClientInternal \<Rightarrow> 'b KvStoreClientInternal" where
  "scheduleTtlUpdates env key version ttlVersion ttl advertiseImmediately area st =
     (let keyTtlBackoffs = area_entries (kc_keyTtlBackoffs st) area in
      if ttl = env_kTtlInfinity env then
        st\<lparr>kc_keyTtlBackoffs :=
             AList.update area (AList.delete key keyTtlBackoffs) (kc_keyTtlBackoffs st)\<rparr>
      else
        (let ttlThriftValue =
               \<lparr> v_version = to_uint32 version, v_originatorId = kc_nodeId st,
                 v_value = None, v_ttl = ttl, v_ttlVersion = to_uint32 ttlVersion,
                 v_hash = Some 0 \<rparr>;
             backoff = env_newBackoff env (tdiv ttl 4) (tdiv ttl 4 + 1);
             backoff' = (if \<not> advertiseImmediately then env_reportError env backoff
                         else backoff)
         in advertiseTtlUpdates env
              (st\<lparr>kc_keyTtlBackoffs :=
                    AList.update area
                      (AList.update key (ttlThriftValue, backoff') keyTtlBackoffs)
                      (kc_keyTtlBackoffs st)\<rparr>)))"

subsection \<open>persistKey\<close>

text \<open>
  The value \<open>persistKey\<close> starts from when the key is persisted already and the call
  is not a no-op: the cached one, with the ttl version of the key's ttl backoff if it
  has one.
\<close>

definition cached_value :: "'b KvStoreClientInternal \<Rightarrow> string \<Rightarrow> string \<Rightarrow> Value \<Rightarrow> Value" where
  "cached_value st area key stored =
     (case map_of (area_entries (kc_keyTtlBackoffs st) area) key of
        None \<Rightarrow> stored
      | Some (ttlValue, backoff) \<Rightarrow> stored\<lparr>v_ttlVersion := v_ttlVersion ttlValue\<rparr>)"

text \<open>
  The decision whether to advertise again: the new value and \<open>valueChange\<close>. The
  value is dereferenced only when the originator is this node, and the dereference
  throws when the value is absent.
\<close>

definition decide_value ::
  "string \<Rightarrow> string \<Rightarrow> Value \<Rightarrow> client_exception + Value \<times> bool" where
  "decide_value nodeId val thriftValue =
     (if v_version thriftValue = 0 then Inr (thriftValue\<lparr>v_version := 1\<rparr>, True)
      else if v_originatorId thriftValue \<noteq> nodeId then
        Inr (thriftValue\<lparr>v_version := v_version thriftValue + 1, v_ttlVersion := 0,
                         v_value := Some val, v_originatorId := nodeId\<rparr>, True)
      else case v_value thriftValue of
        None \<Rightarrow> Inl BadOptionalAccess
      | Some old \<Rightarrow>
          if old \<noteq> val then
            Inr (thriftValue\<lparr>v_version := v_version thriftValue + 1, v_ttlVersion := 0,
                             v_value := Some val, v_originatorId := nodeId\<rparr>, True)
          else Inr (thriftValue, False))"

text \<open>The rest of \<open>persistKey\<close>, from the decision on.\<close>

definition persist_value ::
  "'b KvStoreEnv \<Rightarrow> string \<Rightarrow> string \<Rightarrow> int \<Rightarrow> string \<Rightarrow> Value \<Rightarrow> 'b KvStoreClientInternal
     \<Rightarrow> (client_exception + bool) \<times> 'b KvStoreClientInternal" where
  "persist_value env key val ttl area thriftValue0 st =
     (case decide_value (kc_nodeId st) val thriftValue0 of
        Inl e \<Rightarrow> (Inl e, st)
      | Inr (thriftValue1, valueChange) \<Rightarrow>
          (let hasTtlChanged = (ttl \<noteq> v_ttl thriftValue1);
               thriftValue = thriftValue1\<lparr>v_ttl := ttl\<rparr>;
               st1 = st\<lparr>kc_persistedKeyVals :=
                          (kc_persistedKeyVals st)
                            (area := (kc_persistedKeyVals st area)(key \<mapsto> thriftValue)),
                        kc_backoffs := (kc_backoffs st)(key \<mapsto>
                          env_newBackoff env (env_kInitialBackoff env) (env_kMaxBackoff env))\<rparr>;
               st2 = (if key \<in> kc_keyCallbacks st1 \<and> valueChange
                      then st1\<lparr>kc_callbackLog := kc_callbackLog st1 @ [(key, thriftValue)]\<rparr>
                      else st1);
               st3 = (if valueChange
                      then st2\<lparr>kc_keysToAdvertise :=
                                 AList.update area
                                   (List.insert key (area_entries (kc_keysToAdvertise st2) area))
                                   (kc_keysToAdvertise st2)\<rparr>
                      else st2)
           in case advertisePendingKeys env st3 of
                (Inl e, st4) \<Rightarrow> (Inl e, st4)
              | (Inr u, st4) \<Rightarrow>
                  (Inr True,
                   scheduleTtlUpdates env key (v_version thriftValue) (v_ttlVersion thriftValue)
                     ttl hasTtlChanged area st4)))"

definition persistKey ::
  "'b KvStoreEnv \<Rightarrow> string \<Rightarrow> string \<Rightarrow> int \<Rightarrow> string \<Rightarrow> 'b KvStoreClientInternal
     \<Rightarrow> (client_exception + bool) \<times> 'b KvStoreClientInternal" where
  "persistKey env key val ttl area st =
     (case kc_persistedKeyVals st area key of
        None \<Rightarrow>
          persist_value env key val ttl area
            (case env_getKey env area key of
               Some kvValue \<Rightarrow> kvValue
             | None \<Rightarrow>
                 \<lparr> v_version = 0, v_originatorId = kc_nodeId st, v_value = Some val,
                   v_ttl = ttl, v_ttlVersion = 0, v_hash = None \<rparr>)
            st
      | Some stored \<Rightarrow>
          (case v_value stored of
             None \<Rightarrow> (Inl BadOptionalAccess, st)
           | Some old \<Rightarrow>
               if old = val \<and> v_ttl stored = ttl then (Inr False, st)
               else persist_value env key val ttl area (cached_value st area key stored) st))"

subsection \<open>A concrete client\<close>

text \<open>
  Surroundings in which the KvStore holds nothing and accepts every request, and a
  backoff that is a count of reported errors and lets the client try when the count is
  0. The client \<open>client1\<close> of \<open>node-1\<close> has persisted \<open>key1\<close> in area \<open>a\<close> with
  value \<open>one\<close>, ttl 3000 and version 4.
\<close>

definition env1 :: "nat KvStoreEnv" where
  "env1 =
     \<lparr> env_getKey = (\<lambda>area key. None), env_setKvStoreKeyVals = (\<lambda>area keyVals. True),
       env_newBackoff = (\<lambda>initial maxBackoff. 0), env_canTryNow = (\<lambda>b. b = 0),
       env_reportError = Suc, env_getTimeRemainingUntilRetry = (\<lambda>b. int b * 100),
       env_kInitialBackoff = 64, env_kMaxBackoff = 8192, env_kMaxTtlUpdateInterval = 7200000,
       env_kTtlInfinity = - 2147483648 \<rparr>"



text \<open>
  The client \<open>client0\<close> is \<open>client1\<close> with version 0 in the persisted record of
  \<open>key1\<close> and in its ttl backoff, which two ttl updates have brought to ttl version 2.
  \<open>store_value\<close> is a record of version -1
  from another node, \<open>env2\<close> the surroundings in which the KvStore holds it under
  \<open>key1\<close> in area \<open>a\<close>, and \<open>client2\<close> a client of \<open>node-1\<close> that has persisted
  nothing.
\<close>

definition value0 :: Value where
  "value0 =
     \<lparr> v_version = 0, v_originatorId = ''node-1'', v_value = Some ''one'', v_ttl = 3000,
       v_ttlVersion = 0, v_hash = None \<rparr>"


definition store_value :: Value where
  "store_value =
     \<lparr> v_version = - 1, v_originatorId = ''node-2'', v_value = Some ''zero'', v_ttl = 3000,
       v_ttlVersion = 7, v_hash = None \<rparr>"

definition env2 :: "nat KvStoreEnv" where
  "env2 = env1\<lparr>env_getKey :=
     (\<lambda>area key. if area = ''a'' \<and> key = ''key1'' then Some store_value else None)\<rparr>"

definition client2 :: "nat KvStoreClientInternal" where
  "client2 =
     \<lparr> kc_nodeId = ''node-1'',
       kc_persistedKeyVals = (\<lambda>area. Map.empty),
       kc_keyTtlBackoffs = [],
       kc_keysToAdvertise = [],
       kc_backoffs = Map.empty,
       kc_keyCallbacks = {},
       kc_callbackLog = [],
       kc_advertiseKeyValsTimer = None,
       kc_ttlTimer = None,
       kc_setRequests = [] \<rparr>"

section \<open>Properties of the metric-vector comparison\<close>

lemma negate_negate: "negate (negate x) = x"
  by (cases x) simp_all

lemma isDecisive_negate: "isDecisive (negate x) = isDecisive x"
  by (cases x) (simp_all add: isDecisive_def)

lemma negate_eq_TIE: "(TIE = negate x) = (TIE = x)"
  by (cases x) simp_all

lemma maybeUpdate_negate:
  "maybeUpdate (negate t) (negate u) = negate (maybeUpdate t u)"
  by (simp add: maybeUpdate_def isDecisive_negate negate_eq_TIE)

lemma compareMetrics_loop_swap:
  "length l = length r \<Longrightarrow>
   compareMetrics_loop r l tb = negate (compareMetrics_loop l r tb)"
proof (induction l r tb rule: compareMetrics_loop.induct)
  case (1 lv l rv r tieBreaker)
  then show ?case
    using signed.less_asym [of lv rv] by auto
qed simp_all

lemma compareMetrics_swap: "compareMetrics r l tb = negate (compareMetrics l r tb)"
proof (cases "length l = length r")
  case True
  then show ?thesis
    using compareMetrics_loop_swap [OF True, of tb] by (simp add: compareMetrics_def)
next
  case False
  then show ?thesis by (auto simp: compareMetrics_def)
qed

lemma compare_both_swap:
  "compare_both (negate res) rs ls =
     (case compare_both res ls rs of (res', ls', rs') \<Rightarrow> (negate res', rs', ls'))"
proof (induction res ls rs rule: compare_both.induct)
  case (1 result l ls r rs)
  show ?case
  proof (cases "isDecisive result")
    case True
    then show ?thesis by (simp add: isDecisive_negate)
  next
    case nd: False
    show ?thesis
    proof (cases "me_type l = me_type r")
      case True
      then show ?thesis
        using nd 1(1,2) compareMetrics_swap [of "me_metric r" "me_metric l" "me_isBestPathTieBreaker l"]
        by (auto simp: isDecisive_negate maybeUpdate_negate [symmetric])
    next
      case ne: False
      then show ?thesis
        using nd 1(3,4,5) signed.less_asym [of "me_priority l" "me_priority r"]
        by (auto simp: isDecisive_negate maybeUpdate_negate [symmetric] negate_negate)
    qed
  qed
qed (simp_all)

lemma compare_both_exit_aux:
  "(case compare_both res ls rs of (res', ls', rs') \<Rightarrow> isDecisive res' \<or> ls' = [] \<or> rs' = [])"
  by (induction res ls rs rule: compare_both.induct) simp_all

lemma compare_both_exit:
  "compare_both res ls rs = (res', ls', rs') \<Longrightarrow> isDecisive res' \<or> ls' = [] \<or> rs' = []"
  using compare_both_exit_aux [of res ls rs] by simp

lemma compare_left_decisive: "isDecisive res \<Longrightarrow> compare_left res xs = res"
  by (cases xs) simp_all

lemma compare_right_decisive: "isDecisive res \<Longrightarrow> compare_right res xs = res"
  by (cases xs) simp_all

lemma compare_right_swap: "compare_right (negate res) xs = negate (compare_left res xs)"
  by (induction res xs rule: compare_left.induct)
     (simp_all add: isDecisive_negate maybeUpdate_negate)

lemma compare_left_swap: "compare_left (negate res) xs = negate (compare_right res xs)"
  by (induction res xs rule: compare_right.induct)
     (simp_all add: isDecisive_negate maybeUpdate_negate [symmetric] negate_negate)

lemma compare_tail_commute:
  "isDecisive res \<or> ls = [] \<or> rs = [] \<Longrightarrow>
   compare_left (compare_right res rs) ls = compare_right (compare_left res ls) rs"
  by (auto simp: compare_left_decisive compare_right_decisive)

text \<open>
  Claim C8. For all metric vectors \<open>l\<close> and \<open>r\<close>, the result of
  \<open>compareMetricVectors(r, l)\<close> is the negation (\<open>operator!\<close>: WINNER and LOOSER
  swapped, TIE_WINNER and TIE_LOOSER swapped, TIE and ERROR fixed) of the result of
  \<open>compareMetricVectors(l, r)\<close>, whatever order the library's sort leaves entities of
  equal priority in.
\<close>

theorem compareMetricVectors_swap:
  "fst (compareMetricVectors std_sort r l) = negate (fst (compareMetricVectors std_sort l r))"
proof (cases "mv_version l = mv_version r")
  case False
  then show ?thesis by (auto simp: compareMetricVectors_def)
next
  case True
  obtain res ls rs where
    cb: "compare_both TIE (mv_metrics (sortMetricVector std_sort l))
           (mv_metrics (sortMetricVector std_sort r)) = (res, ls, rs)"
    by (cases "compare_both TIE (mv_metrics (sortMetricVector std_sort l))
           (mv_metrics (sortMetricVector std_sort r))") auto
  have sw: "compare_both TIE (mv_metrics (sortMetricVector std_sort r))
           (mv_metrics (sortMetricVector std_sort l)) = (negate res, rs, ls)"
    using compare_both_swap [of TIE "mv_metrics (sortMetricVector std_sort r)"
        "mv_metrics (sortMetricVector std_sort l)"] cb by simp
  have ex: "isDecisive res \<or> ls = [] \<or> rs = []"
    using compare_both_exit [OF cb] .
  show ?thesis
    using True cb sw compare_tail_commute [OF ex]
    by (simp add: compareMetricVectors_def compare_left_swap compare_right_swap)
qed

text \<open>
  The comparison on the two concrete vectors: the first one is sorted in place, wins
  on the metric of the entity of type 1, and loses with the arguments swapped.
\<close>

lemma compareMetricVectors_example:
  "fst (compareMetricVectors sort_desc vector_a vector_b) = WINNER
   \<and> fst (compareMetricVectors sort_desc vector_b vector_a) = LOOSER
   \<and> mv_metrics (fst (snd (compareMetricVectors sort_desc vector_a vector_b)))
       = rev (mv_metrics vector_a)"
  by (simp add: compareMetricVectors_def sortMetricVector_def isSorted_def vector_a_def
        vector_b_def compareMetrics_def maybeUpdate_def isDecisive_def resultForLoner_def
        word_sless_alt)

section \<open>Properties of the neighbor state machine\<close>

lemma getNextState_table:
  "getNextState (Some s) e = Inr s' \<longleftrightarrow>
     (s = IDLE \<and> (e = HELLO_RCVD_INFO \<or> e = HELLO_RCVD_NO_INFO) \<and> s' = WARM) \<or>
     (s = WARM \<and> e = HELLO_RCVD_INFO \<and> s' = NEGOTIATE) \<or>
     (s = NEGOTIATE \<and> e = HANDSHAKE_RCVD \<and> s' = ESTABLISHED) \<or>
     (s = NEGOTIATE \<and> e = NEGOTIATE_TIMER_EXPIRE \<and> s' = WARM) \<or>
     (s = ESTABLISHED \<and> (e = HELLO_RCVD_NO_INFO \<or> e = HEARTBEAT_TIMER_EXPIRE) \<and> s' = IDLE) \<or>
     (s = ESTABLISHED \<and> e = HELLO_RCVD_RESTART \<and> s' = RESTART) \<or>
     (s = ESTABLISHED \<and> e = HEARTBEAT_RCVD \<and> s' = ESTABLISHED) \<or>
     (s = RESTART \<and> e = HELLO_RCVD_INFO \<and> s' = ESTABLISHED) \<or>
     (s = RESTART \<and> e = GR_TIMER_EXPIRE \<and> s' = IDLE)"
  by (cases s; cases e) (auto simp: getNextState_def stateMap_def)

lemma neighbor_trace_hd: "neighbor_trace s evs ! 0 = s"
  by (cases evs) (simp_all split: sum.splits)

lemma neighbor_trace_nonempty: "neighbor_trace s evs \<noteq> []"
  by (cases evs) (simp_all split: sum.splits)

lemma neighbor_trace_drop:
  "h < length (neighbor_trace s evs) \<Longrightarrow>
   drop h (neighbor_trace s evs) = neighbor_trace (neighbor_trace s evs ! h) (drop h evs)"
proof (induction evs arbitrary: s h)
  case Nil
  then show ?case by simp
next
  case (Cons e es)
  show ?case
  proof (cases h)
    case 0
    then show ?thesis using neighbor_trace_hd [of s "e # es"] by simp
  next
    case (Suc h')
    then show ?thesis using Cons by (auto split: sum.splits)
  qed
qed

text \<open>From NEGOTIATE, WARM and IDLE: what lies before a visit of ESTABLISHED.\<close>

lemma from_NEGOTIATE:
  "i < length (neighbor_trace NEGOTIATE evs) \<Longrightarrow>
   neighbor_trace NEGOTIATE evs ! i = ESTABLISHED \<Longrightarrow> 0 < i"
  using neighbor_trace_hd [of NEGOTIATE evs] by (cases i) auto

lemma from_WARM:
  assumes "i < length (neighbor_trace WARM evs)"
    and "neighbor_trace WARM evs ! i = ESTABLISHED"
  shows "\<exists>k. 0 < k \<and> k < i \<and> neighbor_trace WARM evs ! k = NEGOTIATE"
proof (cases evs)
  case Nil
  with assms show ?thesis by simp
next
  case (Cons e es)
  show ?thesis
  proof (cases "getNextState (Some WARM) e")
    case (Inl a)
    with assms Cons show ?thesis by simp
  next
    case (Inr s')
    then have s': "s' = NEGOTIATE" by (simp add: getNextState_table)
    from assms Cons Inr s' obtain i' where i': "i = Suc i'"
      by (cases i) auto
    with assms Cons Inr s' have "0 < i'"
      using from_NEGOTIATE [of i' es] by simp
    moreover have "neighbor_trace WARM evs ! 1 = NEGOTIATE"
      using Cons Inr s' neighbor_trace_hd [of NEGOTIATE es] by simp
    ultimately show ?thesis using i' by (intro exI [of _ 1]) simp
  qed
qed

lemma from_IDLE:
  assumes "i < length (neighbor_trace IDLE evs)"
    and "neighbor_trace IDLE evs ! i = ESTABLISHED"
  shows "\<exists>j k. 0 < j \<and> j < k \<and> k < i \<and> neighbor_trace IDLE evs ! j = WARM
           \<and> neighbor_trace IDLE evs ! k = NEGOTIATE"
proof (cases evs)
  case Nil
  with assms show ?thesis by simp
next
  case (Cons e es)
  show ?thesis
  proof (cases "getNextState (Some IDLE) e")
    case (Inl a)
    with assms Cons show ?thesis by simp
  next
    case (Inr s')
    then have s': "s' = WARM" by (auto simp add: getNextState_table)
    from assms Cons Inr s' obtain i' where i': "i = Suc i'"
      by (cases i) auto
    with assms Cons Inr s' obtain k where
      k: "0 < k" "k < i'" "neighbor_trace WARM es ! k = NEGOTIATE"
      using from_WARM [of i' es] by auto
    have "neighbor_trace IDLE evs ! 1 = WARM"
      using Cons Inr s' neighbor_trace_hd [of WARM es] by simp
    moreover have "neighbor_trace IDLE evs ! Suc k = NEGOTIATE"
      using Cons Inr s' k by simp
    ultimately show ?thesis using i' k
      by (intro exI [of _ 1] exI [of _ "Suc k"]) simp
  qed
qed

lemma since_IDLE:
  assumes "h \<le> i" and "i < length (neighbor_trace s evs)"
    and "neighbor_trace s evs ! h = IDLE" and "neighbor_trace s evs ! i = ESTABLISHED"
  shows "\<exists>j k. h < j \<and> j < k \<and> k < i \<and> neighbor_trace s evs ! j = WARM
           \<and> neighbor_trace s evs ! k = NEGOTIATE"
proof -
  let ?tr = "neighbor_trace s evs"
  have h: "h < length ?tr" using assms by simp
  have d: "drop h ?tr = neighbor_trace IDLE (drop h evs)"
    using neighbor_trace_drop [OF h] assms(3) by simp
  have nth: "\<And>n. h + n < length ?tr \<Longrightarrow> neighbor_trace IDLE (drop h evs) ! n = ?tr ! (h + n)"
    using d by (metis nth_drop less_or_eq_imp_le h)
  have len: "length (neighbor_trace IDLE (drop h evs)) = length ?tr - h"
    using d by (metis length_drop)
  have ih: "i - h < length (neighbor_trace IDLE (drop h evs))"
    using assms(1,2) len by linarith
  have est: "neighbor_trace IDLE (drop h evs) ! (i - h) = ESTABLISHED"
    using nth [of "i - h"] assms by simp
  obtain j k where jk: "0 < j" "j < k" "k < i - h"
      "neighbor_trace IDLE (drop h evs) ! j = WARM"
      "neighbor_trace IDLE (drop h evs) ! k = NEGOTIATE"
    using from_IDLE [OF ih est] by blast
  have "?tr ! (h + j) = WARM" "?tr ! (h + k) = NEGOTIATE"
    using jk nth [of j] nth [of k] assms by auto
  then show ?thesis using jk
    by (intro exI [of _ "h + j"] exI [of _ "h + k"]) auto
qed

text \<open>
  Claim C2. In every execution of the neighbor state machine that starts in IDLE, a visit
  of ESTABLISHED is preceded by a visit of WARM and, after it, a visit of NEGOTIATE; this
  holds even counted from the last visit of IDLE before it. In the transition table the
  only transitions into ESTABLISHED are from NEGOTIATE on HANDSHAKE_RCVD, from
  ESTABLISHED on HEARTBEAT_RCVD and from RESTART on HELLO_RCVD_INFO, and the only
  transitions into RESTART leave ESTABLISHED.
\<close>

theorem established_only_through_warm_and_negotiate:
  "(\<forall>evs h i. h \<le> i \<and> i < length (neighbor_trace IDLE evs)
        \<and> neighbor_trace IDLE evs ! h = IDLE \<and> neighbor_trace IDLE evs ! i = ESTABLISHED
      \<longrightarrow> (\<exists>j k. h < j \<and> j < k \<and> k < i \<and> neighbor_trace IDLE evs ! j = WARM
             \<and> neighbor_trace IDLE evs ! k = NEGOTIATE))
   \<and> (\<forall>s e. getNextState (Some s) e = Inr ESTABLISHED \<longleftrightarrow>
         (s = NEGOTIATE \<and> e = HANDSHAKE_RCVD) \<or> (s = ESTABLISHED \<and> e = HEARTBEAT_RCVD)
         \<or> (s = RESTART \<and> e = HELLO_RCVD_INFO))
   \<and> (\<forall>s e. getNextState (Some s) e = Inr RESTART \<longrightarrow> s = ESTABLISHED)"
proof (intro conjI allI impI)
  fix evs h i
  assume "h \<le> i \<and> i < length (neighbor_trace IDLE evs)
        \<and> neighbor_trace IDLE evs ! h = IDLE \<and> neighbor_trace IDLE evs ! i = ESTABLISHED"
  then show "\<exists>j k. h < j \<and> j < k \<and> k < i \<and> neighbor_trace IDLE evs ! j = WARM
             \<and> neighbor_trace IDLE evs ! k = NEGOTIATE"
    using since_IDLE [of h i IDLE evs] by simp
next
  fix s e
  show "getNextState (Some s) e = Inr ESTABLISHED \<longleftrightarrow>
         (s = NEGOTIATE \<and> e = HANDSHAKE_RCVD) \<or> (s = ESTABLISHED \<and> e = HEARTBEAT_RCVD)
         \<or> (s = RESTART \<and> e = HELLO_RCVD_INFO)"
    by (auto simp: getNextState_table)
next
  fix s e
  assume "getNextState (Some s) e = Inr RESTART"
  then show "s = ESTABLISHED" by (auto simp: getNextState_table)
qed

lemma trace_example:
  "neighbor_trace IDLE [HELLO_RCVD_NO_INFO, HELLO_RCVD_INFO, HANDSHAKE_RCVD]
     = [IDLE, WARM, NEGOTIATE, ESTABLISHED]"
  by (simp add: getNextState_def stateMap_def)

theorem established_only_through_warm_and_negotiate_witness:
  "neighbor_trace IDLE [HELLO_RCVD_NO_INFO, HELLO_RCVD_INFO, HANDSHAKE_RCVD]
     = [IDLE, WARM, NEGOTIATE, ESTABLISHED]
   \<and> (\<exists>j k. 0 < j \<and> j < k \<and> k < 3
        \<and> neighbor_trace IDLE [HELLO_RCVD_NO_INFO, HELLO_RCVD_INFO, HANDSHAKE_RCVD] ! j = WARM
        \<and> neighbor_trace IDLE [HELLO_RCVD_NO_INFO, HELLO_RCVD_INFO, HANDSHAKE_RCVD] ! k = NEGOTIATE)
   \<and> getNextState (Some NEGOTIATE) HANDSHAKE_RCVD = Inr ESTABLISHED
   \<and> getNextState (Some ESTABLISHED) HELLO_RCVD_RESTART = Inr RESTART"
proof -
  let ?evs = "[HELLO_RCVD_NO_INFO, HELLO_RCVD_INFO, HANDSHAKE_RCVD]"
  have tr: "neighbor_trace IDLE ?evs = [IDLE, WARM, NEGOTIATE, ESTABLISHED]"
    by (rule trace_example)
  have pre: "(0::nat) \<le> 3 \<and> 3 < length (neighbor_trace IDLE ?evs)
      \<and> neighbor_trace IDLE ?evs ! 0 = IDLE \<and> neighbor_trace IDLE ?evs ! 3 = ESTABLISHED"
    by (simp add: getNextState_def stateMap_def)
  have "\<exists>j k. 0 < j \<and> j < k \<and> k < 3 \<and> neighbor_trace IDLE ?evs ! j = WARM
        \<and> neighbor_trace IDLE ?evs ! k = NEGOTIATE"
    using established_only_through_warm_and_negotiate pre by blast
  moreover have "getNextState (Some NEGOTIATE) HANDSHAKE_RCVD = Inr ESTABLISHED"
    using established_only_through_warm_and_negotiate by blast
  moreover have "getNextState (Some ESTABLISHED) HELLO_RCVD_RESTART = Inr RESTART"
    by (simp add: getNextState_def stateMap_def)
  ultimately show ?thesis using tr by blast
qed

section \<open>Properties of the label allocator\<close>

lemma scan_down_free: "scan_down allocated label |\<notin>| allocated"
  by (induction allocated label rule: scan_down.induct) (subst scan_down.simps, simp)

lemma scan_down_le: "scan_down allocated label \<le> label"
proof (induction allocated label rule: scan_down.induct)
  case (1 allocated label)
  show ?case
  proof (cases "label |\<in>| allocated")
    case True
    then have "scan_down allocated label = scan_down allocated (label - 1)"
      by (subst scan_down.simps) simp
    with 1 True show ?thesis by simp
  next
    case False
    then show ?thesis by (subst scan_down.simps) simp
  qed
qed

lemma scan_down_above:
  "scan_down allocated label < x \<Longrightarrow> x \<le> label \<Longrightarrow> x |\<in>| allocated"
proof (induction allocated label rule: scan_down.induct)
  case (1 allocated label)
  show ?case
  proof (cases "label |\<in>| allocated")
    case True
    then have eq: "scan_down allocated label = scan_down allocated (label - 1)"
      by (subst scan_down.simps) simp
    show ?thesis
    proof (cases "x = label")
      case True
      with \<open>label |\<in>| allocated\<close> show ?thesis by simp
    next
      case False
      with 1 True eq show ?thesis by simp
    qed
  next
    case False
    then have "scan_down allocated label = label" by (subst scan_down.simps) simp
    with 1(2,3) show ?thesis by simp
  qed
qed

lemma scan_down_exhausted:
  assumes "\<forall>x. lo \<le> x \<and> x \<le> hi \<longrightarrow> x |\<in>| allocated"
  shows "scan_down allocated hi < lo"
proof (rule ccontr)
  assume "\<not> scan_down allocated hi < lo"
  then have "lo \<le> scan_down allocated hi" by simp
  moreover have "scan_down allocated hi \<le> hi" by (rule scan_down_le)
  ultimately have "scan_down allocated hi |\<in>| allocated" using assms by blast
  then show False using scan_down_free by blast
qed

text \<open>
  Claim C7 fails on the code where it says that the label lies within the configured
  local range. The preferred label base + if_index is handed out without a look at the
  range, which only the scan from the top respects: on the interface \<open>eth1\<close> with
  index 10000 the allocator returns the label 60000, above the local range 50000 to
  59999.
\<close>

theorem preferred_label_outside_local_range:
  "fst (getNewLabelForIface ''eth1'' spark0) = Inr 60000
   \<and> \<not> (60000 \<le> snd (kSrLocalRange spark0))"
  by (simp add: getNewLabelForIface_def spark0_def)

text \<open>
  What holds of the allocator. On a known interface, \<open>getNewLabelForIface\<close> returns
  the label base + if_index when it is free. Every label it returns was not allocated
  before and is allocated afterwards, and nothing else changes. The label lies in the
  local range whenever 0 \<le> if_index \<le> top - base, and whenever it comes from the
  scan: on a collision the allocator returns the highest free label at or below the top
  of the range. When the preferred label and every label of the range are allocated, it
  raises the runtime error. When the hold timer of a tracked neighbor expires, its label
  is removed from the allocated set and the neighbor is no longer tracked.
\<close>

theorem label_allocation:
  assumes "map_of (interfaceDb st) ifName = Some iface"
    and "neighbors st ifName = Some ifNeighbors"
    and "ifNeighbors neighborName = Some neighbor"
  shows
    "(fst (kSrLocalRange st) + if_ifIndex iface |\<notin>| allocatedLabels st \<longrightarrow>
        fst (getNewLabelForIface ifName st) = Inr (fst (kSrLocalRange st) + if_ifIndex iface))
     \<and> (\<forall>label. fst (getNewLabelForIface ifName st) = Inr label \<longrightarrow>
          label |\<notin>| allocatedLabels st
          \<and> snd (getNewLabelForIface ifName st)
              = st\<lparr>allocatedLabels := finsert label (allocatedLabels st)\<rparr>
          \<and> (0 \<le> if_ifIndex iface
               \<and> if_ifIndex iface \<le> snd (kSrLocalRange st) - fst (kSrLocalRange st) \<longrightarrow>
              fst (kSrLocalRange st) \<le> label \<and> label \<le> snd (kSrLocalRange st))
          \<and> (fst (kSrLocalRange st) + if_ifIndex iface |\<in>| allocatedLabels st \<longrightarrow>
              fst (kSrLocalRange st) \<le> label \<and> label \<le> snd (kSrLocalRange st)
              \<and> (\<forall>x. label < x \<and> x \<le> snd (kSrLocalRange st) \<longrightarrow> x |\<in>| allocatedLabels st)))
     \<and> (fst (kSrLocalRange st) + if_ifIndex iface |\<in>| allocatedLabels st
          \<and> (\<forall>x. fst (kSrLocalRange st) \<le> x \<and> x \<le> snd (kSrLocalRange st)
                \<longrightarrow> x |\<in>| allocatedLabels st) \<longrightarrow>
        fst (getNewLabelForIface ifName st) = Inl RanOutOfLabelSpace)
     \<and> fst (processNeighborHoldTimeout ifName neighborName st) = Inr ()
     \<and> allocatedLabels (snd (processNeighborHoldTimeout ifName neighborName st))
          = allocatedLabels st |-| {|nb_label neighbor|}
     \<and> neighbors (snd (processNeighborHoldTimeout ifName neighborName st))
          = (neighbors st)(ifName \<mapsto> ifNeighbors(neighborName := None))"
proof -
  let ?lo = "fst (kSrLocalRange st)" and ?hi = "snd (kSrLocalRange st)"
  let ?pref = "?lo + if_ifIndex iface"
  let ?scan = "scan_down (allocatedLabels st) ?hi"
  have pref: "?pref |\<notin>| allocatedLabels st \<Longrightarrow>
      getNewLabelForIface ifName st
        = (Inr ?pref, st\<lparr>allocatedLabels := finsert ?pref (allocatedLabels st)\<rparr>)"
    using assms(1) by (simp add: getNewLabelForIface_def Let_def)
  have taken: "?pref |\<in>| allocatedLabels st \<Longrightarrow>
      getNewLabelForIface ifName st
        = (if ?scan < ?lo then Inl RanOutOfLabelSpace else Inr ?scan,
           st\<lparr>allocatedLabels := finsert ?scan (allocatedLabels st)\<rparr>)"
    using assms(1) by (simp add: getNewLabelForIface_def Let_def)
  have c1: "?pref |\<notin>| allocatedLabels st \<longrightarrow> fst (getNewLabelForIface ifName st) = Inr ?pref"
    using pref by simp
  have c2: "\<forall>label. fst (getNewLabelForIface ifName st) = Inr label \<longrightarrow>
          label |\<notin>| allocatedLabels st
          \<and> snd (getNewLabelForIface ifName st)
              = st\<lparr>allocatedLabels := finsert label (allocatedLabels st)\<rparr>
          \<and> (0 \<le> if_ifIndex iface \<and> if_ifIndex iface \<le> ?hi - ?lo \<longrightarrow>
              ?lo \<le> label \<and> label \<le> ?hi)
          \<and> (?pref |\<in>| allocatedLabels st \<longrightarrow>
              ?lo \<le> label \<and> label \<le> ?hi
              \<and> (\<forall>x. label < x \<and> x \<le> ?hi \<longrightarrow> x |\<in>| allocatedLabels st))"
  proof (intro allI impI)
    fix label
    assume r: "fst (getNewLabelForIface ifName st) = Inr label"
    show "label |\<notin>| allocatedLabels st
          \<and> snd (getNewLabelForIface ifName st)
              = st\<lparr>allocatedLabels := finsert label (allocatedLabels st)\<rparr>
          \<and> (0 \<le> if_ifIndex iface \<and> if_ifIndex iface \<le> ?hi - ?lo \<longrightarrow>
              ?lo \<le> label \<and> label \<le> ?hi)
          \<and> (?pref |\<in>| allocatedLabels st \<longrightarrow>
              ?lo \<le> label \<and> label \<le> ?hi
              \<and> (\<forall>x. label < x \<and> x \<le> ?hi \<longrightarrow> x |\<in>| allocatedLabels st))"
    proof (cases "?pref |\<in>| allocatedLabels st")
      case False
      have g: "getNewLabelForIface ifName st
          = (Inr ?pref, st\<lparr>allocatedLabels := finsert ?pref (allocatedLabels st)\<rparr>)"
        using pref False by simp
      have l: "label = ?pref" using r g by simp
      have "snd (getNewLabelForIface ifName st)
              = st\<lparr>allocatedLabels := finsert label (allocatedLabels st)\<rparr>"
        using g l by simp
      moreover have "0 \<le> if_ifIndex iface \<and> if_ifIndex iface \<le> ?hi - ?lo \<longrightarrow>
              ?lo \<le> label \<and> label \<le> ?hi"
        using l by linarith
      ultimately show ?thesis using False l by blast
    next
      case True
      have g: "getNewLabelForIface ifName st
        = (if ?scan < ?lo then Inl RanOutOfLabelSpace else Inr ?scan,
           st\<lparr>allocatedLabels := finsert ?scan (allocatedLabels st)\<rparr>)"
        using taken True by simp
      have ge: "\<not> ?scan < ?lo"
      proof
        assume "?scan < ?lo"
        then have "fst (getNewLabelForIface ifName st) = Inl RanOutOfLabelSpace"
          using g by simp
        with r show False by simp
      qed
      have l: "label = ?scan" using r g ge by simp
      have "label |\<notin>| allocatedLabels st" using l scan_down_free by simp
      moreover have "label \<le> ?hi" using l scan_down_le by simp
      moreover have "?lo \<le> label" using l ge by simp
      moreover have "\<forall>x. label < x \<and> x \<le> ?hi \<longrightarrow> x |\<in>| allocatedLabels st"
        using l scan_down_above by blast
      moreover have "snd (getNewLabelForIface ifName st)
              = st\<lparr>allocatedLabels := finsert label (allocatedLabels st)\<rparr>"
        using g l by simp
      ultimately show ?thesis by blast
    qed
  qed
  have c3: "?pref |\<in>| allocatedLabels st
          \<and> (\<forall>x. ?lo \<le> x \<and> x \<le> ?hi \<longrightarrow> x |\<in>| allocatedLabels st) \<longrightarrow>
        fst (getNewLabelForIface ifName st) = Inl RanOutOfLabelSpace"
  proof (intro impI)
    assume a: "?pref |\<in>| allocatedLabels st
          \<and> (\<forall>x. ?lo \<le> x \<and> x \<le> ?hi \<longrightarrow> x |\<in>| allocatedLabels st)"
    then have "?scan < ?lo" using scan_down_exhausted [of ?lo ?hi "allocatedLabels st"] by blast
    then show "fst (getNewLabelForIface ifName st) = Inl RanOutOfLabelSpace"
      using taken a by simp
  qed
  have c4: "fst (processNeighborHoldTimeout ifName neighborName st) = Inr ()"
    using assms(2,3) by (simp add: processNeighborHoldTimeout_def Let_def)
  have c5: "allocatedLabels (snd (processNeighborHoldTimeout ifName neighborName st))
          = allocatedLabels st |-| {|nb_label neighbor|}"
    using assms(2,3) by (simp add: processNeighborHoldTimeout_def Let_def)
  have c6: "neighbors (snd (processNeighborHoldTimeout ifName neighborName st))
          = (neighbors st)(ifName \<mapsto> ifNeighbors(neighborName := None))"
    using assms(2,3) by (simp add: processNeighborHoldTimeout_def Let_def)
  from c1 c2 c3 c4 c5 c6 show ?thesis by blast
qed

text \<open>The allocator on the concrete nodes.\<close>

theorem label_allocation_witness:
  "fst (getNewLabelForIface ''eth0'' (spark1\<lparr>allocatedLabels := {|59999|}\<rparr>)) = Inr 50003
   \<and> fst (getNewLabelForIface ''eth0'' spark1) = Inr 59998
   \<and> 59998 |\<notin>| allocatedLabels spark1
   \<and> allocatedLabels (snd (getNewLabelForIface ''eth0'' spark1)) = {|59998, 50003, 59999|}
   \<and> fst (getNewLabelForIface ''eth0'' spark_full) = Inl RanOutOfLabelSpace
   \<and> fst (processNeighborHoldTimeout ''eth0'' ''node-2'' spark1) = Inr ()
   \<and> allocatedLabels (snd (processNeighborHoldTimeout ''eth0'' ''node-2'' spark1)) = {|59999|}"
proof -
  let ?iface = "\<lparr>if_ifIndex = 3, if_v4Network = ([], 0),
      if_v6LinkLocalNetwork = (''fe80::1'', 64)\<rparr>"
  let ?nbrs = "[''node-2'' \<mapsto> node2_neighbor]"
  have i1: "map_of (interfaceDb spark1) ''eth0'' = Some ?iface"
    and i2: "map_of (interfaceDb spark_full) ''eth0'' = Some ?iface"
    by (simp_all add: spark0_def spark1_def spark_full_def)
  have n1: "neighbors spark1 ''eth0'' = Some ?nbrs"
    and n2: "neighbors spark_full ''eth0'' = Some ?nbrs"
    by (simp_all add: spark1_def spark_full_def)
  have m: "?nbrs ''node-2'' = Some node2_neighbor" by simp
  let ?st = "spark1\<lparr>allocatedLabels := {|59999|}\<rparr>"
  have free: "fst (kSrLocalRange ?st) + if_ifIndex ?iface |\<notin>| allocatedLabels ?st"
    by (simp add: spark1_def spark0_def)
  have i0: "map_of (interfaceDb ?st) ''eth0'' = Some ?iface" using i1 by simp
  have n0: "neighbors ?st ''eth0'' = Some ?nbrs" using n1 by simp
  have "fst (getNewLabelForIface ''eth0'' ?st)
      = Inr (fst (kSrLocalRange ?st) + if_ifIndex ?iface)"
    using label_allocation [OF i0 n0 m] free by blast
  then have a': "fst (getNewLabelForIface ''eth0'' ?st) = Inr 50003"
    by (simp add: spark1_def spark0_def)
  have b: "fst (getNewLabelForIface ''eth0'' spark1) = Inr 59998"
    by (simp add: getNewLabelForIface_def spark1_def spark0_def scan_down.simps)
  have c: "59998 |\<notin>| allocatedLabels spark1
      \<and> snd (getNewLabelForIface ''eth0'' spark1)
          = spark1\<lparr>allocatedLabels := finsert 59998 (allocatedLabels spark1)\<rparr>"
    using label_allocation [OF i1 n1 m] b by blast
  have c': "allocatedLabels (snd (getNewLabelForIface ''eth0'' spark1)) = {|59998, 50003, 59999|}"
    using c by (simp add: spark1_def)
  have full: "fst (kSrLocalRange spark_full) + if_ifIndex ?iface |\<in>| allocatedLabels spark_full
      \<and> (\<forall>x. fst (kSrLocalRange spark_full) \<le> x \<and> x \<le> snd (kSrLocalRange spark_full)
            \<longrightarrow> x |\<in>| allocatedLabels spark_full)"
    by (auto simp: spark_full_def)
  have d: "fst (getNewLabelForIface ''eth0'' spark_full) = Inl RanOutOfLabelSpace"
    using label_allocation [OF i2 n2 m] full by blast
  have e: "fst (processNeighborHoldTimeout ''eth0'' ''node-2'' spark1) = Inr ()
      \<and> allocatedLabels (snd (processNeighborHoldTimeout ''eth0'' ''node-2'' spark1))
          = allocatedLabels spark1 |-| {|nb_label node2_neighbor|}"
    using label_allocation [OF i1 n1 m] by blast
  have e': "allocatedLabels spark1 |-| {|nb_label node2_neighbor|} = {|59999|}"
    by (auto simp: spark1_def node2_neighbor_def new_Neighbor_def)
  from a' b c c' d e e' show ?thesis by simp
qed

section \<open>Properties of the hello validation\<close>

lemma sanityCheckHelloPkt_SUCCESS:
  "neighborName \<noteq> myNodeName st \<Longrightarrow> domainName = myDomainName st \<Longrightarrow>
   \<not> remoteVersion < lowestSupportedVersion st \<Longrightarrow>
   sanityCheckHelloPkt domainName neighborName remoteIfName remoteVersion st = (SUCCESS, st)"
  by (simp add: sanityCheckHelloPkt_def)

text \<open>
  Claim C9 as stated fails: the tracked neighbor \<open>node-2\<close> sends a hello with a
  sequence number below the stored one, but from another domain. The hello is rejected
  (FAILURE), not classified as a restart, and the stored neighbor is left as it was.
\<close>

theorem restart_by_sequence_number_counterexample:
  "neighbors spark1 ''eth0'' = Some [''node-2'' \<mapsto> node2_neighbor]
   \<and> pl_seqNum hello_other_domain \<le> nb_seqNum node2_neighbor
   \<and> fst (validateHelloPacket ''eth0'' hello_other_domain spark1) = Inr FAILURE
   \<and> neighbors (snd (validateHelloPacket ''eth0'' hello_other_domain spark1)) = neighbors spark1"
  by (simp add: validateHelloPacket_def sanityCheckHelloPkt_def addStatValue_def Let_def
      hello_other_domain_def spark1_def spark0_def node2_neighbor_def new_Neighbor_def)

text \<open>
  Claim C9, amended. For an already-tracked neighbor, a received hello that passes the
  sanity check (not the node's own name, the node's domain, a supported version) and,
  where it is enabled, the v4 subnet validation: if its sequence number is at most the
  stored one, \<open>validateHelloPacket\<close> returns NEIGHBOR_RESTART and the stored neighbor
  info and sequence number become those of the packet; if it is greater, only the
  sequence number is stored, and the result is NEIGHBOR_RESTART only when v4 is enabled
  and the v4 address differs from the stored one, SUCCESS otherwise.
\<close>

theorem restart_by_sequence_number:
  assumes tracked: "neighbors st ifName = Some ifNeighbors"
      "ifNeighbors (sn_nodeName (pl_originator payload)) = Some neighbor"
    and sanity: "sn_nodeName (pl_originator payload) \<noteq> myNodeName st"
      "sn_domainName (pl_originator payload) = myDomainName st"
      "\<not> pl_version payload < lowestSupportedVersion st"
    and subnet: "enableV4 st \<and> enableSubnetValidation st \<longrightarrow>
      validateV4AddressSubnet ifName (sn_transportAddressV4 (pl_originator payload)) st
        = (Inr SUCCESS, st)"
  shows
    "(pl_seqNum payload \<le> nb_seqNum neighbor \<longrightarrow>
        validateHelloPacket ifName payload st =
          (Inr NEIGHBOR_RESTART,
           st\<lparr>neighbors := (neighbors st)(ifName \<mapsto>
                ifNeighbors(sn_nodeName (pl_originator payload) \<mapsto>
                  neighbor\<lparr>nb_info := pl_originator payload,
                           nb_seqNum := pl_seqNum payload\<rparr>))\<rparr>))
     \<and> (nb_seqNum neighbor < pl_seqNum payload \<longrightarrow>
        validateHelloPacket ifName payload st =
          (Inr (if enableV4 st \<and> sn_transportAddressV4 (pl_originator payload)
                     \<noteq> sn_transportAddressV4 (nb_info neighbor)
                then NEIGHBOR_RESTART else SUCCESS),
           st\<lparr>neighbors := (neighbors st)(ifName \<mapsto>
                ifNeighbors(sn_nodeName (pl_originator payload) \<mapsto>
                  neighbor\<lparr>nb_seqNum := pl_seqNum payload\<rparr>))\<rparr>))"
proof -
  have s: "sanityCheckHelloPkt (sn_domainName (pl_originator payload))
      (sn_nodeName (pl_originator payload)) (sn_ifName (pl_originator payload))
      (pl_version payload) st = (SUCCESS, st)"
    using sanity by (rule sanityCheckHelloPkt_SUCCESS)
  have v: "(if enableV4 st \<and> enableSubnetValidation st
            then validateV4AddressSubnet ifName
                   (sn_transportAddressV4 (pl_originator payload)) st
            else (Inr SUCCESS, st)) = (Inr SUCCESS, st)"
    using subnet by simp
  show ?thesis
    using tracked
    by (auto simp: validateHelloPacket_def Let_def s v set_neighbor_def not_less)
qed

theorem restart_by_sequence_number_witness:
  "fst (validateHelloPacket ''eth0'' hello_restart spark1) = Inr NEIGHBOR_RESTART
   \<and> neighbors (snd (validateHelloPacket ''eth0'' hello_restart spark1)) ''eth0''
       = Some [''node-2'' \<mapsto>
           node2_neighbor\<lparr>nb_info := pl_originator hello_restart, nb_seqNum := 5\<rparr>]
   \<and> fst (validateHelloPacket ''eth0'' hello_next spark1) = Inr SUCCESS
   \<and> neighbors (snd (validateHelloPacket ''eth0'' hello_next spark1)) ''eth0''
       = Some [''node-2'' \<mapsto> node2_neighbor\<lparr>nb_seqNum := 11\<rparr>]"
proof -
  have n: "neighbors spark1 ''eth0'' = Some [''node-2'' \<mapsto> node2_neighbor]"
    by (simp add: spark1_def)
  have r: "[''node-2'' \<mapsto> node2_neighbor] (sn_nodeName (pl_originator hello_restart)) = Some node2_neighbor"
     "sn_nodeName (pl_originator hello_restart) \<noteq> myNodeName spark1"
     "sn_domainName (pl_originator hello_restart) = myDomainName spark1"
     "\<not> pl_version hello_restart < lowestSupportedVersion spark1"
     "enableV4 spark1 \<and> enableSubnetValidation spark1 \<longrightarrow>
      validateV4AddressSubnet ''eth0'' (sn_transportAddressV4 (pl_originator hello_restart)) spark1
        = (Inr SUCCESS, spark1)"
     "pl_seqNum hello_restart \<le> nb_seqNum node2_neighbor"
    by (simp_all add: hello_restart_def hello_other_domain_def spark1_def spark0_def
        node2_neighbor_def new_Neighbor_def)
  have x: "[''node-2'' \<mapsto> node2_neighbor] (sn_nodeName (pl_originator hello_next)) = Some node2_neighbor"
     "sn_nodeName (pl_originator hello_next) \<noteq> myNodeName spark1"
     "sn_domainName (pl_originator hello_next) = myDomainName spark1"
     "\<not> pl_version hello_next < lowestSupportedVersion spark1"
     "enableV4 spark1 \<and> enableSubnetValidation spark1 \<longrightarrow>
      validateV4AddressSubnet ''eth0'' (sn_transportAddressV4 (pl_originator hello_next)) spark1
        = (Inr SUCCESS, spark1)"
     "nb_seqNum node2_neighbor < pl_seqNum hello_next" "\<not> enableV4 spark1"
    by (simp_all add: hello_next_def hello_restart_def hello_other_domain_def spark1_def
        spark0_def node2_neighbor_def new_Neighbor_def)
  have a: "validateHelloPacket ''eth0'' hello_restart spark1 =
          (Inr NEIGHBOR_RESTART,
           spark1\<lparr>neighbors := (neighbors spark1)(''eth0'' \<mapsto>
                [''node-2'' \<mapsto> node2_neighbor](sn_nodeName (pl_originator hello_restart) \<mapsto>
                  node2_neighbor\<lparr>nb_info := pl_originator hello_restart,
                           nb_seqNum := pl_seqNum hello_restart\<rparr>))\<rparr>)"
    using restart_by_sequence_number [OF n r(1) r(2) r(3) r(4) r(5)] r(6) by blast
  have b: "validateHelloPacket ''eth0'' hello_next spark1 =
          (Inr (if enableV4 spark1 \<and> sn_transportAddressV4 (pl_originator hello_next)
                     \<noteq> sn_transportAddressV4 (nb_info node2_neighbor)
                then NEIGHBOR_RESTART else SUCCESS),
           spark1\<lparr>neighbors := (neighbors spark1)(''eth0'' \<mapsto>
                [''node-2'' \<mapsto> node2_neighbor](sn_nodeName (pl_originator hello_next) \<mapsto>
                  node2_neighbor\<lparr>nb_seqNum := pl_seqNum hello_next\<rparr>))\<rparr>)"
    using restart_by_sequence_number [OF n x(1) x(2) x(3) x(4) x(5)] x(6) by blast
  have names: "sn_nodeName (pl_originator hello_restart) = ''node-2''"
      "sn_nodeName (pl_originator hello_next) = ''node-2''"
      "pl_seqNum hello_restart = 5" "pl_seqNum hello_next = 11"
    by (simp_all add: hello_next_def hello_restart_def hello_other_domain_def)
  show ?thesis
    unfolding a b using x(7) names by simp
qed

section \<open>Properties of the config store, the prefix manager and the filtered dump\<close>

text \<open>
  Claim C5. After \<open>set_config_key(k, v)\<close>, \<open>get_config_key(k)\<close> returns \<open>v\<close>; after
  \<open>erase_config_key(k)\<close>, \<open>get_config_key(k)\<close> fails with the typed NotFound error;
  erasing one key leaves the value under every other key as it was.
\<close>

theorem config_store_set_get_erase:
  "get_config_key k (set_config_key k v store) = Inr v
   \<and> get_config_key k (erase_config_key k store) = Inl NotFound
   \<and> (k' \<noteq> k \<longrightarrow> get_config_key k' (erase_config_key k store) = get_config_key k' store)"
  by (simp add: get_config_key_def set_config_key_def erase_config_key_def)

theorem config_store_set_get_erase_witness:
  "get_config_key ''key2''
      (erase_config_key ''key1''
         (set_config_key ''key2'' ''value2'' (set_config_key ''key1'' ''value1'' Map.empty)))
     = Inr ''value2''
   \<and> get_config_key ''key1''
      (erase_config_key ''key1''
         (set_config_key ''key2'' ''value2'' (set_config_key ''key1'' ''value1'' Map.empty)))
     = Inl NotFound"
proof -
  let ?s1 = "set_config_key ''key1'' ''value1'' Map.empty"
  let ?s2 = "set_config_key ''key2'' ''value2'' ?s1"
  have ne: "''key2'' \<noteq> ''key1''" by simp
  have "get_config_key ''key2'' (erase_config_key ''key1'' ?s2) = get_config_key ''key2'' ?s2"
    using config_store_set_get_erase [of "''key1''" "''value1''" ?s2 "''key2''"] ne by blast
  moreover have "get_config_key ''key2'' ?s2 = Inr ''value2''"
    using config_store_set_get_erase [of "''key2''" "''value2''" ?s1] by blast
  moreover have "get_config_key ''key1'' (erase_config_key ''key1'' ?s2) = Inl NotFound"
    using config_store_set_get_erase [of "''key1''" "''value1''" ?s2] by blast
  ultimately show ?thesis by simp
qed

text \<open>
  Claim C1. Scenario S1: on an empty PrefixManager, after advertising 10.0.0.0/8 and
  11.0.0.0/8 as LOOPBACK and 20.0.0.0/8 and 21.0.0.0/8 as BGP, withdrawing 21.0.0.0/8
  of BGP, withdrawing all of LOOPBACK and syncing BGP to 23.0.0.0/8, every call
  succeeds, \<open>get_prefixes()\<close> is exactly the set holding 23.0.0.0/8 of BGP, and
  \<open>get_prefixes_by_type(LOOPBACK)\<close> is empty.
\<close>

theorem prefix_lifecycle_result:
  "(case prefix_lifecycle of
      Inl err \<Rightarrow> False
    | Inr db \<Rightarrow>
        get_prefixes db = {createPrefixEntry ''23.0.0.0/8'' BGP}
        \<and> get_prefixes_by_type LOOPBACK db = {})"
  by (simp add: prefix_lifecycle_def withdraw_prefixes_def advertise_prefixes_def
      advertise_prefix_def withdraw_prefix_def withdraw_prefixes_by_type_def
      sync_prefixes_by_type_def prefixes_of_type_def is_advertised_def get_prefixes_def
      get_prefixes_by_type_def createPrefixEntry_def)

text \<open>
  Claim C4. Scenario S2: on the store seeded with the nine records, the filtered dump
  with prefix \<open>key3\<close> and originator ids \<open>{node3}\<close> returns exactly key3, key33 and
  key333 with their stored values, and the filtered hash dump returns exactly the same
  three keys, each record with the value absent and every other field as stored.
\<close>

theorem kvstore_filtered_dump:
  "get_kv_store_key_vals_filtered key3_params (seeded_store kTtlInfinity) =
     [(''key3'', createThriftValue kTtlInfinity 1 ''node3'' ''value3''),
      (''key33'', createThriftValue kTtlInfinity 1 ''node33'' ''value33''),
      (''key333'', createThriftValue kTtlInfinity 1 ''node33'' ''value333'')]
   \<and> get_kv_store_hash_filtered key3_params (seeded_store kTtlInfinity) =
     [(''key3'', (createThriftValue kTtlInfinity 1 ''node3'' ''value3'')\<lparr>v_value := None\<rparr>),
      (''key33'', (createThriftValue kTtlInfinity 1 ''node33'' ''value33'')\<lparr>v_value := None\<rparr>),
      (''key333'', (createThriftValue kTtlInfinity 1 ''node33'' ''value333'')\<lparr>v_value := None\<rparr>)]"
  by (simp add: get_kv_store_key_vals_filtered_def get_kv_store_hash_filtered_def
      key3_params_def seeded_store_def keyMatch_def createThriftValue_def)

section \<open>Properties of the RTT measurement\<close>

lemma tdiv_1000_bounds: "0 \<le> a \<Longrightarrow> tdiv a 1000 * 1000 \<le> a \<and> a < tdiv a 1000 * 1000 + 1000"
  by (cases "a = 0") (simp_all add: tdiv_def, presburger+)

lemma tdiv_1000_dvd: "1000 dvd tdiv a 1000 * 1000"
  by simp

text \<open>
  What holds of the measurement: samples with time stamps out of order are not taken,
  and a sample that is taken is a multiple of 1000 microseconds and at least 1000.
\<close>

lemma rttSample_out_of_order:
  "nbrSentTime < nbrRecvTime \<or> myRecvTime < mySentTime \<Longrightarrow>
   rttSample mySentTime nbrRecvTime nbrSentTime myRecvTime = None"
  by (auto simp: rttSample_def)

lemma rttSample_rounded:
  assumes "rttSample mySentTime nbrRecvTime nbrSentTime myRecvTime = Some rtt"
  shows "1000 \<le> rtt \<and> 1000 dvd rtt"
proof -
  let ?raw = "(myRecvTime - mySentTime) - (nbrSentTime - nbrRecvTime)"
  have "rtt = max (tdiv ?raw 1000 * 1000) 1000"
    using assms by (auto simp: rttSample_def Let_def split: if_splits)
  then show ?thesis by (auto simp: max_def)
qed

lemma rttSample_taken:
  assumes "mySentTime \<noteq> 0" "nbrRecvTime \<noteq> 0"
    and "nbrRecvTime \<le> nbrSentTime" "mySentTime \<le> myRecvTime"
  shows "rttSample mySentTime nbrRecvTime nbrSentTime myRecvTime
      = Some (max (tdiv ((myRecvTime - mySentTime) - (nbrSentTime - nbrRecvTime)) 1000 * 1000)
                1000)"
  using assms by (auto simp: rttSample_def Let_def max_def)

text \<open>
  Claim C3 fails on the code where it says that a negative sample is rejected. With the
  node's hello sent at 1000 and received by the neighbor at 2000, the neighbor's hello
  sent at 7000 and received at 3000 (microseconds), the time stamps are in order and
  the round-trip time (3000 - 1000) - (7000 - 2000) is negative; the sample is raised to
  1000 before the test for a negative value, and is taken.
\<close>

theorem negative_rtt_sample_accepted:
  "(3000 - 1000) - (7000 - 2000) < (0 :: int)
   \<and> rttSample 1000 2000 7000 3000 = Some 1000"
  by (simp add: rttSample_def tdiv_def)

section \<open>Properties of the packet validation\<close>

lemma unchanged_by_addStatValue:
  "neighbors (addStatValue key v st) = neighbors st"
  "spark2Neighbors (addStatValue key v st) = spark2Neighbors st"
  "allocatedLabels (addStatValue key v st) = allocatedLabels st"
  "enableSpark2 (addStatValue key v st) = enableSpark2 st"
  by (simp_all add: addStatValue_def)

lemma sanityCheckHelloPkt_cases:
  "sanityCheckHelloPkt domainName neighborName remoteIfName remoteVersion st =
     (if neighborName = myNodeName st then
        (FAILURE, addStatValue ''spark.invalid_keepalive.looped_packet'' 1 st)
      else if domainName \<noteq> myDomainName st then
        (FAILURE, addStatValue ''spark.invalid_keepalive.different_domain'' 1 st)
      else if remoteVersion < lowestSupportedVersion st then
        (FAILURE, addStatValue ''spark.invalid_keepalive.invalid_version'' 1 st)
      else (SUCCESS, st))"
  by (simp add: sanityCheckHelloPkt_def)

lemma sanityCheckHelloPkt_neighbors:
  "neighbors (snd (sanityCheckHelloPkt d n i v st)) = neighbors st
   \<and> spark2Neighbors (snd (sanityCheckHelloPkt d n i v st)) = spark2Neighbors st
   \<and> allocatedLabels (snd (sanityCheckHelloPkt d n i v st)) = allocatedLabels st"
  by (simp add: sanityCheckHelloPkt_def unchanged_by_addStatValue)

lemma validateHelloPacket_FAILURE:
  assumes "fst (sanityCheckHelloPkt (sn_domainName (pl_originator payload))
             (sn_nodeName (pl_originator payload)) (sn_ifName (pl_originator payload))
             (pl_version payload) st) = FAILURE"
  shows "validateHelloPacket ifName payload st =
     (Inr FAILURE, snd (sanityCheckHelloPkt (sn_domainName (pl_originator payload))
             (sn_nodeName (pl_originator payload)) (sn_ifName (pl_originator payload))
             (pl_version payload) st))"
proof -
  obtain r st1 where s: "sanityCheckHelloPkt (sn_domainName (pl_originator payload))
             (sn_nodeName (pl_originator payload)) (sn_ifName (pl_originator payload))
             (pl_version payload) st = (r, st1)"
    by (cases "sanityCheckHelloPkt (sn_domainName (pl_originator payload))
             (sn_nodeName (pl_originator payload)) (sn_ifName (pl_originator payload))
             (pl_version payload) st") auto
  with assms have "r = FAILURE" by simp
  with s show ?thesis by (simp add: validateHelloPacket_def Let_def)
qed

lemma processPayload_FAILURE:
  assumes "fst (sanityCheckHelloPkt (sn_domainName (pl_originator payload))
             (sn_nodeName (pl_originator payload)) (sn_ifName (pl_originator payload))
             (pl_version payload) st) = FAILURE"
  shows "processPayload payload ifName myRecvTime st =
     (Inr (), snd (sanityCheckHelloPkt (sn_domainName (pl_originator payload))
             (sn_nodeName (pl_originator payload)) (sn_ifName (pl_originator payload))
             (pl_version payload) st))"
  by (simp add: processPayload_def validateHelloPacket_FAILURE [OF assms])

lemma processHelloMsg_FAILURE:
  assumes "fst (sanityCheckHelloPkt (hm_domainName helloMsg) (hm_nodeName helloMsg)
             (hm_ifName helloMsg) (hm_version helloMsg) st) = FAILURE"
  shows "processHelloMsg helloMsg ifName st =
     (Inr (), snd (sanityCheckHelloPkt (hm_domainName helloMsg) (hm_nodeName helloMsg)
             (hm_ifName helloMsg) (hm_version helloMsg) st))"
proof -
  obtain r st1 where s: "sanityCheckHelloPkt (hm_domainName helloMsg) (hm_nodeName helloMsg)
             (hm_ifName helloMsg) (hm_version helloMsg) st = (r, st1)"
    by (cases "sanityCheckHelloPkt (hm_domainName helloMsg) (hm_nodeName helloMsg)
             (hm_ifName helloMsg) (hm_version helloMsg) st") auto
  with assms have "r = FAILURE" by simp
  with s show ?thesis by (simp add: processHelloMsg_def Let_def)
qed

lemma parsePacket_hopLimit: "rm_hopLimit rm < 255 \<Longrightarrow> parsePacket rm st = (None, st)"
  by (simp add: parsePacket_def kSparkHopLimit_def)

lemma parsePacket_enableSpark2: "enableSpark2 (snd (parsePacket rm st)) = enableSpark2 st"
  by (simp add: parsePacket_def Let_def unchanged_by_addStatValue
      split: option.splits)

text \<open>
  Claim C6. A received packet whose hop limit is below 255 is dropped by
  \<open>parsePacket\<close>: \<open>processHelloPacket\<close> returns with the state untouched. A hello
  whose node name is the local node name, whose domain differs from the local domain or
  whose version is below the lowest supported version fails \<open>sanityCheckHelloPkt\<close>,
  which adds 1 to the drop counter of the first of these checks that fails, in this
  order: looped packet, different domain, invalid version, and changes nothing else; in
  particular the tracked neighbors (old and Spark2) and the allocated labels stay as
  they are. The callers stop there: \<open>validateHelloPacket\<close> returns FAILURE,
  \<open>processHelloMsg\<close> returns, and \<open>processHelloPacket\<close>, on a packet that
  \<open>parsePacket\<close> accepts, returns with the state the sanity check left, for a hello
  processed the old way as for a Spark2 hello message.
\<close>

theorem hello_packet_validation:
  "(rm_hopLimit rm < 255 \<longrightarrow> processHelloPacket rm st = (Inr (), st))
   \<and> fst (sanityCheckHelloPkt d n i v st)
       = (if n = myNodeName st \<or> d \<noteq> myDomainName st \<or> v < lowestSupportedVersion st
          then FAILURE else SUCCESS)
   \<and> snd (sanityCheckHelloPkt d n i v st)
       = (if n = myNodeName st then
            addStatValue ''spark.invalid_keepalive.looped_packet'' 1 st
          else if d \<noteq> myDomainName st then
            addStatValue ''spark.invalid_keepalive.different_domain'' 1 st
          else if v < lowestSupportedVersion st then
            addStatValue ''spark.invalid_keepalive.invalid_version'' 1 st
          else st)
   \<and> neighbors (snd (sanityCheckHelloPkt d n i v st)) = neighbors st
   \<and> spark2Neighbors (snd (sanityCheckHelloPkt d n i v st)) = spark2Neighbors st
   \<and> allocatedLabels (snd (sanityCheckHelloPkt d n i v st)) = allocatedLabels st
   \<and> (fst (sanityCheckHelloPkt (sn_domainName (pl_originator payload))
             (sn_nodeName (pl_originator payload)) (sn_ifName (pl_originator payload))
             (pl_version payload) st) = FAILURE \<longrightarrow>
        validateHelloPacket ifName payload st =
          (Inr FAILURE, snd (sanityCheckHelloPkt (sn_domainName (pl_originator payload))
             (sn_nodeName (pl_originator payload)) (sn_ifName (pl_originator payload))
             (pl_version payload) st)))
   \<and> (fst (sanityCheckHelloPkt (hm_domainName helloMsg) (hm_nodeName helloMsg)
             (hm_ifName helloMsg) (hm_version helloMsg) st) = FAILURE \<longrightarrow>
        processHelloMsg helloMsg ifName st =
          (Inr (), snd (sanityCheckHelloPkt (hm_domainName helloMsg) (hm_nodeName helloMsg)
             (hm_ifName helloMsg) (hm_version helloMsg) st)))
   \<and> (parsePacket rm st = (Some (pkt, ifName), st1)
        \<and> (\<not> enableSpark2 st \<or> (pk_helloMsg pkt = None \<and> pk_heartbeatMsg pkt = None
              \<and> pk_handshakeMsg pkt = None))
        \<and> fst (sanityCheckHelloPkt (sn_domainName (pl_originator (pk_payload pkt)))
             (sn_nodeName (pl_originator (pk_payload pkt)))
             (sn_ifName (pl_originator (pk_payload pkt)))
             (pl_version (pk_payload pkt)) st1) = FAILURE \<longrightarrow>
        processHelloPacket rm st =
          (Inr (), snd (sanityCheckHelloPkt (sn_domainName (pl_originator (pk_payload pkt)))
             (sn_nodeName (pl_originator (pk_payload pkt)))
             (sn_ifName (pl_originator (pk_payload pkt)))
             (pl_version (pk_payload pkt)) st1)))
   \<and> (parsePacket rm st = (Some (pkt, ifName), st1) \<and> enableSpark2 st
        \<and> pk_helloMsg pkt = Some helloMsg
        \<and> fst (sanityCheckHelloPkt (hm_domainName helloMsg) (hm_nodeName helloMsg)
             (hm_ifName helloMsg) (hm_version helloMsg) st1) = FAILURE \<longrightarrow>
        processHelloPacket rm st =
          (Inr (), snd (sanityCheckHelloPkt (hm_domainName helloMsg) (hm_nodeName helloMsg)
             (hm_ifName helloMsg) (hm_version helloMsg) st1)))"
proof (intro conjI impI)
  assume "rm_hopLimit rm < 255"
  then show "processHelloPacket rm st = (Inr (), st)"
    by (simp add: processHelloPacket_def parsePacket_hopLimit)
next
  show "fst (sanityCheckHelloPkt d n i v st)
       = (if n = myNodeName st \<or> d \<noteq> myDomainName st \<or> v < lowestSupportedVersion st
          then FAILURE else SUCCESS)"
    by (simp add: sanityCheckHelloPkt_cases)
next
  show "snd (sanityCheckHelloPkt d n i v st)
       = (if n = myNodeName st then
            addStatValue ''spark.invalid_keepalive.looped_packet'' 1 st
          else if d \<noteq> myDomainName st then
            addStatValue ''spark.invalid_keepalive.different_domain'' 1 st
          else if v < lowestSupportedVersion st then
            addStatValue ''spark.invalid_keepalive.invalid_version'' 1 st
          else st)"
    by (simp add: sanityCheckHelloPkt_cases)
next
  show "neighbors (snd (sanityCheckHelloPkt d n i v st)) = neighbors st"
    "spark2Neighbors (snd (sanityCheckHelloPkt d n i v st)) = spark2Neighbors st"
    "allocatedLabels (snd (sanityCheckHelloPkt d n i v st)) = allocatedLabels st"
    using sanityCheckHelloPkt_neighbors [of d n i v st] by simp_all
next
  assume "fst (sanityCheckHelloPkt (sn_domainName (pl_originator payload))
             (sn_nodeName (pl_originator payload)) (sn_ifName (pl_originator payload))
             (pl_version payload) st) = FAILURE"
  then show "validateHelloPacket ifName payload st =
          (Inr FAILURE, snd (sanityCheckHelloPkt (sn_domainName (pl_originator payload))
             (sn_nodeName (pl_originator payload)) (sn_ifName (pl_originator payload))
             (pl_version payload) st))"
    by (rule validateHelloPacket_FAILURE)
next
  assume "fst (sanityCheckHelloPkt (hm_domainName helloMsg) (hm_nodeName helloMsg)
             (hm_ifName helloMsg) (hm_version helloMsg) st) = FAILURE"
  then show "processHelloMsg helloMsg ifName st =
          (Inr (), snd (sanityCheckHelloPkt (hm_domainName helloMsg) (hm_nodeName helloMsg)
             (hm_ifName helloMsg) (hm_version helloMsg) st))"
    by (rule processHelloMsg_FAILURE)
next
  assume a: "parsePacket rm st = (Some (pkt, ifName), st1)
        \<and> (\<not> enableSpark2 st \<or> (pk_helloMsg pkt = None \<and> pk_heartbeatMsg pkt = None
              \<and> pk_handshakeMsg pkt = None))
        \<and> fst (sanityCheckHelloPkt (sn_domainName (pl_originator (pk_payload pkt)))
             (sn_nodeName (pl_originator (pk_payload pkt)))
             (sn_ifName (pl_originator (pk_payload pkt)))
             (pl_version (pk_payload pkt)) st1) = FAILURE"
  then have e: "enableSpark2 st1 = enableSpark2 st"
    using parsePacket_enableSpark2 [of rm st] by simp
  have "processHelloPacket rm st = processPayload (pk_payload pkt) ifName (rm_recvTime rm) st1"
    using a e by (auto simp: processHelloPacket_def)
  then show "processHelloPacket rm st =
          (Inr (), snd (sanityCheckHelloPkt (sn_domainName (pl_originator (pk_payload pkt)))
             (sn_nodeName (pl_originator (pk_payload pkt)))
             (sn_ifName (pl_originator (pk_payload pkt)))
             (pl_version (pk_payload pkt)) st1))"
    using a processPayload_FAILURE by simp
next
  assume a: "parsePacket rm st = (Some (pkt, ifName), st1) \<and> enableSpark2 st
        \<and> pk_helloMsg pkt = Some helloMsg
        \<and> fst (sanityCheckHelloPkt (hm_domainName helloMsg) (hm_nodeName helloMsg)
             (hm_ifName helloMsg) (hm_version helloMsg) st1) = FAILURE"
  then have e: "enableSpark2 st1"
    using parsePacket_enableSpark2 [of rm st] by simp
  have "processHelloPacket rm st = processHelloMsg helloMsg ifName st1"
    using a e by (simp add: processHelloPacket_def)
  then show "processHelloPacket rm st =
          (Inr (), snd (sanityCheckHelloPkt (hm_domainName helloMsg) (hm_nodeName helloMsg)
             (hm_ifName helloMsg) (hm_version helloMsg) st1))"
    using a processHelloMsg_FAILURE by simp
qed

theorem hello_packet_validation_witness:
  "processHelloPacket packet_one_hop spark1 = (Inr (), spark1)
   \<and> fst (processHelloPacket packet_other_domain spark1) = Inr ()
   \<and> neighbors (snd (processHelloPacket packet_other_domain spark1)) = neighbors spark1
   \<and> tData (snd (processHelloPacket packet_other_domain spark1))
        ''spark.invalid_keepalive.different_domain'' = 1
   \<and> processHelloMsg helloMsg_looped ''eth0'' spark1
       = (Inr (), addStatValue ''spark.invalid_keepalive.looped_packet'' 1 spark1)"
proof -
  let ?st1 = "addStatValue ''spark.hello_packet_processed'' 1
      (addStatValue ''spark.hello_packet_recv_size'' 200
         (addStatValue ''spark.hello_packet_recv'' 1 spark1))"
  let ?pkt = "\<lparr> pk_payload = hello_other_domain, pk_helloMsg = None,
      pk_heartbeatMsg = None, pk_handshakeMsg = None \<rparr>"
  have hop: "rm_hopLimit packet_one_hop < 255"
    by (simp add: packet_one_hop_def)
  have a: "processHelloPacket packet_one_hop spark1 = (Inr (), spark1)"
    using hello_packet_validation [where rm = packet_one_hop and st = spark1] hop by blast
  have parse: "parsePacket packet_other_domain spark1 = (Some (?pkt, ''eth0''), ?st1)"
    by (simp add: parsePacket_def packet_other_domain_def findInterfaceFromIfindex_def
        spark1_def spark0_def kSparkHopLimit_def kMinIpv6Mtu_def Let_def addStatValue_def)
  have old: "\<not> enableSpark2 spark1"
    by (simp add: spark1_def spark0_def)
  have fail: "fst (sanityCheckHelloPkt (sn_domainName (pl_originator (pk_payload ?pkt)))
             (sn_nodeName (pl_originator (pk_payload ?pkt)))
             (sn_ifName (pl_originator (pk_payload ?pkt)))
             (pl_version (pk_payload ?pkt)) ?st1) = FAILURE"
    by (simp add: sanityCheckHelloPkt_def hello_other_domain_def addStatValue_def
        spark1_def spark0_def)
  have b: "processHelloPacket packet_other_domain spark1 =
          (Inr (), snd (sanityCheckHelloPkt (sn_domainName (pl_originator (pk_payload ?pkt)))
             (sn_nodeName (pl_originator (pk_payload ?pkt)))
             (sn_ifName (pl_originator (pk_payload ?pkt)))
             (pl_version (pk_payload ?pkt)) ?st1))"
    using hello_packet_validation [where rm = packet_other_domain and st = spark1
        and pkt = ?pkt and ifName = "''eth0''" and ?st1.0 = ?st1]
      parse old fail by blast
  have b1: "snd (sanityCheckHelloPkt (sn_domainName (pl_originator (pk_payload ?pkt)))
             (sn_nodeName (pl_originator (pk_payload ?pkt)))
             (sn_ifName (pl_originator (pk_payload ?pkt)))
             (pl_version (pk_payload ?pkt)) ?st1)
       = addStatValue ''spark.invalid_keepalive.different_domain'' 1 ?st1"
    by (simp add: sanityCheckHelloPkt_def hello_other_domain_def addStatValue_def
        spark1_def spark0_def)
  have looped: "fst (sanityCheckHelloPkt (hm_domainName helloMsg_looped)
             (hm_nodeName helloMsg_looped) (hm_ifName helloMsg_looped)
             (hm_version helloMsg_looped) spark1) = FAILURE"
    by (simp add: sanityCheckHelloPkt_def helloMsg_looped_def spark1_def spark0_def)
  have c: "processHelloMsg helloMsg_looped ''eth0'' spark1 =
          (Inr (), snd (sanityCheckHelloPkt (hm_domainName helloMsg_looped)
             (hm_nodeName helloMsg_looped) (hm_ifName helloMsg_looped)
             (hm_version helloMsg_looped) spark1))"
    using hello_packet_validation [where st = spark1 and helloMsg = helloMsg_looped
        and ifName = "''eth0''"] looped by blast
  have c1: "snd (sanityCheckHelloPkt (hm_domainName helloMsg_looped)
             (hm_nodeName helloMsg_looped) (hm_ifName helloMsg_looped)
             (hm_version helloMsg_looped) spark1)
       = addStatValue ''spark.invalid_keepalive.looped_packet'' 1 spark1"
    by (simp add: sanityCheckHelloPkt_def helloMsg_looped_def spark1_def spark0_def)
  have t: "tData (addStatValue ''spark.invalid_keepalive.different_domain'' 1 ?st1)
      ''spark.invalid_keepalive.different_domain'' = 1"
    by (simp add: addStatValue_def spark1_def spark0_def)
  show ?thesis
    unfolding a b b1 c c1 using t by (simp add: unchanged_by_addStatValue)
qed

section \<open>Properties of persistKey\<close>

text \<open>Advertising and ttl scheduling leave the persisted key-vals and the node id alone.\<close>

lemma setKeysHelper_persisted:
  "kc_persistedKeyVals (snd (setKeysHelper env keyVals area st)) = kc_persistedKeyVals st"
  by (simp add: setKeysHelper_def)

lemma pending_keys_loop_persisted:
  "kc_persistedKeyVals (snd (pending_keys_loop env area ks timeout keyVals keys st))
     = kc_persistedKeyVals st"
  by (induction env area ks timeout keyVals keys st rule: pending_keys_loop.induct)
     (simp_all add: Let_def split: option.splits)

lemma pending_areas_loop_persisted:
  "kc_persistedKeyVals (snd (pending_areas_loop env entries timeout st))
     = kc_persistedKeyVals st"
proof (induction entries arbitrary: timeout st)
  case Nil
  then show ?case by simp
next
  case (Cons entry rest)
  obtain area keysToAdvertise where entry: "entry = (area, keysToAdvertise)"
    by (cases entry) auto
  show ?case
  proof (cases "keysToAdvertise = []")
    case True
    then show ?thesis using Cons entry by simp
  next
    case False
    obtain r st1 where p: "pending_keys_loop env area keysToAdvertise timeout [] [] st = (r, st1)"
      by (cases "pending_keys_loop env area keysToAdvertise timeout [] [] st") auto
    have st1: "kc_persistedKeyVals st1 = kc_persistedKeyVals st"
      using pending_keys_loop_persisted [of env area keysToAdvertise timeout "[]" "[]" st] p
      by simp
    show ?thesis
    proof (cases r)
      case (Inl e)
      with False p st1 entry show ?thesis by simp
    next
      case (Inr x)
      obtain timeout1 keyVals keys where x: "x = (timeout1, keyVals, keys)"
        by (cases x) auto
      obtain ok st2 where s: "setKeysHelper env keyVals area st1 = (ok, st2)"
        by (cases "setKeysHelper env keyVals area st1") auto
      have st2: "kc_persistedKeyVals st2 = kc_persistedKeyVals st1"
        using setKeysHelper_persisted [of env keyVals area st1] s by simp
      let ?st3 = "st2\<lparr>kc_keysToAdvertise :=
                       AList.update area
                         (filter (\<lambda>k. k \<notin> set keys) (area_entries (kc_keysToAdvertise st2) area))
                         (kc_keysToAdvertise st2)\<rparr>"
      have step: "pending_areas_loop env (entry # rest) timeout st
          = pending_areas_loop env rest timeout1 (if ok then ?st3 else st2)"
        using False p Inr x s entry by simp
      have "kc_persistedKeyVals (if ok then ?st3 else st2) = kc_persistedKeyVals st"
        using st1 st2 by simp
      then show ?thesis
        unfolding step using Cons.IH [of timeout1 "if ok then ?st3 else st2"] by simp
    qed
  qed
qed

lemma advertisePendingKeys_persisted:
  "kc_persistedKeyVals (snd (advertisePendingKeys env st)) = kc_persistedKeyVals st"
proof -
  obtain r st1 where p:
    "pending_areas_loop env (kc_keysToAdvertise st) (env_kMaxBackoff env) st = (r, st1)"
    by (cases "pending_areas_loop env (kc_keysToAdvertise st) (env_kMaxBackoff env) st") auto
  have "kc_persistedKeyVals st1 = kc_persistedKeyVals st"
    using pending_areas_loop_persisted [of env "kc_keysToAdvertise st" "env_kMaxBackoff env" st] p
    by simp
  then show ?thesis
    using p by (cases r) (simp_all add: advertisePendingKeys_def)
qed

lemma ttl_areas_loop_persisted:
  "kc_persistedKeyVals (snd (ttl_areas_loop env entries timeout st)) = kc_persistedKeyVals st"
proof (induction entries arbitrary: timeout st)
  case Nil
  then show ?case by simp
next
  case (Cons entry rest)
  obtain area keyTtlBackoffs where entry: "entry = (area, keyTtlBackoffs)"
    by (cases entry) auto
  obtain kb timeout1 keyVals where t:
    "ttl_keys_loop env (kc_persistedKeyVals st area) keyTtlBackoffs timeout [] = (kb, timeout1, keyVals)"
    by (cases "ttl_keys_loop env (kc_persistedKeyVals st area) keyTtlBackoffs timeout []") auto
  let ?st1 = "st\<lparr>kc_keyTtlBackoffs := AList.update area kb (kc_keyTtlBackoffs st)\<rparr>"
  let ?st2 = "if keyVals \<noteq> [] then snd (setKeysHelper env keyVals area ?st1) else ?st1"
  have st2: "kc_persistedKeyVals ?st2 = kc_persistedKeyVals st"
    by (simp add: setKeysHelper_persisted)
  have step: "ttl_areas_loop env (entry # rest) timeout st
      = ttl_areas_loop env rest timeout1 ?st2"
    using t entry by (simp add: Let_def)
  show ?case
    unfolding step using Cons.IH [of timeout1 ?st2] st2 by simp
qed

lemma advertiseTtlUpdates_persisted:
  "kc_persistedKeyVals (advertiseTtlUpdates env st) = kc_persistedKeyVals st"
proof -
  obtain timeout st1 where t:
    "ttl_areas_loop env (kc_keyTtlBackoffs st) (env_kMaxTtlUpdateInterval env) st = (timeout, st1)"
    by (cases "ttl_areas_loop env (kc_keyTtlBackoffs st) (env_kMaxTtlUpdateInterval env) st") auto
  have "kc_persistedKeyVals st1 = kc_persistedKeyVals st"
    using ttl_areas_loop_persisted [of env "kc_keyTtlBackoffs st" "env_kMaxTtlUpdateInterval env" st] t
    by simp
  then show ?thesis using t by (simp add: advertiseTtlUpdates_def)
qed

lemma scheduleTtlUpdates_persisted:
  "kc_persistedKeyVals (scheduleTtlUpdates env key version ttlVersion ttl now area st)
     = kc_persistedKeyVals st"
  by (simp add: scheduleTtlUpdates_def Let_def advertiseTtlUpdates_persisted)

text \<open>What \<open>persist_value\<close> leaves under the key, whenever the decision does not throw.\<close>

lemma persist_value_persisted:
  assumes "decide_value (kc_nodeId st) val thriftValue0 = Inr (thriftValue1, valueChange)"
  shows "kc_persistedKeyVals (snd (persist_value env key val ttl area thriftValue0 st)) area key
           = Some (thriftValue1\<lparr>v_ttl := ttl\<rparr>)
         \<and> fst (persist_value env key val ttl area thriftValue0 st) \<noteq> Inr False"
proof -
  let ?tv = "thriftValue1\<lparr>v_ttl := ttl\<rparr>"
  let ?st1 = "st\<lparr>kc_persistedKeyVals :=
                          (kc_persistedKeyVals st)
                            (area := (kc_persistedKeyVals st area)(key \<mapsto> ?tv)),
                        kc_backoffs := (kc_backoffs st)(key \<mapsto>
                          env_newBackoff env (env_kInitialBackoff env) (env_kMaxBackoff env))\<rparr>"
  let ?st2 = "if key \<in> kc_keyCallbacks ?st1 \<and> valueChange
                      then ?st1\<lparr>kc_callbackLog := kc_callbackLog ?st1 @ [(key, ?tv)]\<rparr>
                      else ?st1"
  let ?st3 = "if valueChange
                      then ?st2\<lparr>kc_keysToAdvertise :=
                                 AList.update area
                                   (List.insert key (area_entries (kc_keysToAdvertise ?st2) area))
                                   (kc_keysToAdvertise ?st2)\<rparr>
                      else ?st2"
  have st3: "kc_persistedKeyVals ?st3 area key = Some ?tv" by simp
  obtain r st4 where a: "advertisePendingKeys env ?st3 = (r, st4)"
    by (cases "advertisePendingKeys env ?st3") auto
  have st4: "kc_persistedKeyVals st4 area key = Some ?tv"
    using advertisePendingKeys_persisted [of env ?st3] a st3 by simp
  have unfold: "persist_value env key val ttl area thriftValue0 st =
      (case r of
         Inl e \<Rightarrow> (Inl e, st4)
       | Inr u \<Rightarrow>
           (Inr True,
            scheduleTtlUpdates env key (v_version ?tv) (v_ttlVersion ?tv) ttl
              (ttl \<noteq> v_ttl thriftValue1) area st4))"
    using assms a by (simp add: persist_value_def Let_def)
  show ?thesis
    unfolding unfold using st4 by (cases r) (simp_all add: scheduleTtlUpdates_persisted)
qed


text \<open>
  A persisted record of version 0 comes from \<open>persistKey\<close> itself: when the key is not
  persisted and the KvStore answers a record of version -1 from another node, the call
  leaves version 0 under the key.
\<close>

lemma persistKey_leaves_version_zero:
  assumes "kc_persistedKeyVals st area key = None"
    and "env_getKey env area key = Some kvValue"
    and "v_version kvValue = - 1"
    and "v_originatorId kvValue \<noteq> kc_nodeId st"
  shows "kc_persistedKeyVals (snd (persistKey env key val ttl area st)) area key
           = Some (kvValue\<lparr>v_version := 0, v_ttlVersion := 0, v_value := Some val,
                           v_originatorId := kc_nodeId st, v_ttl := ttl\<rparr>)"
proof -
  have p: "persistKey env key val ttl area st = persist_value env key val ttl area kvValue st"
    using assms by (simp add: persistKey_def)
  have d: "decide_value (kc_nodeId st) val kvValue
      = Inr (kvValue\<lparr>v_version := 0, v_ttlVersion := 0, v_value := Some val,
                      v_originatorId := kc_nodeId st\<rparr>, True)"
    using assms by (simp add: decide_value_def)
  show ?thesis
    using persist_value_persisted [OF d, of env key ttl area] p by simp
qed

lemma persistKey_leaves_version_zero_example:
  "kc_persistedKeyVals (snd (persistKey env2 ''key1'' ''one'' 3000 ''a'' client2)) ''a'' ''key1''
     = Some value0"
proof -
  have "kc_persistedKeyVals (snd (persistKey env2 ''key1'' ''one'' 3000 ''a'' client2)) ''a'' ''key1''
      = Some (store_value\<lparr>v_version := 0, v_ttlVersion := 0, v_value := Some ''one'',
                            v_originatorId := kc_nodeId client2, v_ttl := 3000\<rparr>)"
    by (rule persistKey_leaves_version_zero)
       (simp_all add: client2_def env2_def store_value_def)
  then show ?thesis
    by (simp add: store_value_def value0_def client2_def)
qed


text \<open>
  The same on two calls in a row: when a key that is neither persisted nor in the
  KvStore is persisted, the identical call right after it is a no-op.
\<close>

lemma persistKey_then_repeat:
  assumes "kc_persistedKeyVals st area key = None" and "env_getKey env area key = None"
  shows "persistKey env' key val ttl area (snd (persistKey env key val ttl area st))
           = (Inr False, snd (persistKey env key val ttl area st))"
proof -
  let ?fresh = "\<lparr> v_version = 0, v_originatorId = kc_nodeId st, v_value = Some val,
                   v_ttl = ttl, v_ttlVersion = 0, v_hash = None \<rparr>"
  have p: "persistKey env key val ttl area st = persist_value env key val ttl area ?fresh st"
    using assms by (simp add: persistKey_def)
  have d: "decide_value (kc_nodeId st) val ?fresh = Inr (?fresh\<lparr>v_version := 1\<rparr>, True)"
    by (simp add: decide_value_def)
  have s: "kc_persistedKeyVals (snd (persistKey env key val ttl area st)) area key
      = Some (?fresh\<lparr>v_version := 1, v_ttl := ttl\<rparr>)"
    using persist_value_persisted [OF d, of env key ttl area] p by simp
  show ?thesis
    using s by (simp add: persistKey_def)
qed


end
